theory Spec2Isabelle
  imports Complex_Main "HOL-Library.AList"
begin

section \<open>KPI metrics over a dataset (utils/data_processor.py)\<close>

text \<open>
  The dataset handed to \<open>get_kpi_metrics\<close> is a pandas DataFrame of transaction-like
  rows. The function reads three columns only, \<open>date\<close>, \<open>revenue\<close> and \<open>customer\<close>, and
  asks for each whether it is present. A row is a record of these three cells; the
  list \<open>columns\<close> says which of them the frame really has (the cell of an absent column
  is never read). Timestamps are counted in seconds, revenue is an exact rational:
  rounding of binary floating point, NaN cells and unparsable dates are outside the model.
\<close>

record txn =
  date :: int
  revenue :: rat
  customer :: string

record dataset =
  columns :: "string list"
  rows :: "txn list"

definition timedelta_days :: "int \<Rightarrow> int" where
  "timedelta_days n = n * 86400"

text \<open>\<open>DataFrame.empty\<close>: true when any axis has length 0.\<close>

definition df_empty :: "dataset \<Rightarrow> bool" where
  "df_empty data = (rows data = [] \<or> columns data = [])"

text \<open>\<open>data['revenue'].sum()\<close>, \<open>data['customer'].nunique()\<close>, \<open>data['date'].max()\<close>.\<close>

definition revenue_sum :: "txn list \<Rightarrow> rat" where
  "revenue_sum rs = sum_list (map revenue rs)"

definition customer_nunique :: "txn list \<Rightarrow> rat" where
  "customer_nunique rs = of_nat (length (remdups (map customer rs)))"

definition date_max :: "txn list \<Rightarrow> int" where
  "date_max rs = Max (set (map date rs))"

text \<open>The two windows of the growth computation (lines 198 to 206).\<close>

definition current_start :: "dataset \<Rightarrow> int" where
  "current_start data = date_max (rows data) - timedelta_days 30"

definition previous_start :: "dataset \<Rightarrow> int" where
  "previous_start data = current_start data - timedelta_days 30"

definition current_data :: "dataset \<Rightarrow> txn list" where
  "current_data data = filter (\<lambda>r. date r \<ge> current_start data) (rows data)"

definition previous_data :: "dataset \<Rightarrow> txn list" where
  "previous_data data =
     filter (\<lambda>r. date r \<ge> previous_start data \<and> date r < current_start data) (rows data)"

type_synonym metrics = "string \<rightharpoonup> rat"

definition zero_growth :: "metrics \<Rightarrow> metrics" where
  "zero_growth m = m(''revenue_growth'' \<mapsto> 0, ''order_growth'' \<mapsto> 0,
                     ''customer_growth'' \<mapsto> 0, ''aov_growth'' \<mapsto> 0)"

definition get_kpi_metrics :: "dataset \<Rightarrow> metrics" where
  "get_kpi_metrics data =
    (if df_empty data then
       [''total_revenue'' \<mapsto> 0, ''total_orders'' \<mapsto> 0, ''active_customers'' \<mapsto> 0,
        ''avg_order_value'' \<mapsto> 0, ''revenue_growth'' \<mapsto> 0, ''order_growth'' \<mapsto> 0,
        ''customer_growth'' \<mapsto> 0, ''aov_growth'' \<mapsto> 0]
     else
      let total_revenue =
            (if ''revenue'' \<in> set (columns data) then revenue_sum (rows data) else 0);
          total_orders = (of_nat (length (rows data)) :: rat);
          active_customers =
            (if ''customer'' \<in> set (columns data) then customer_nunique (rows data) else 0);
          avg_order_value = (if total_orders > 0 then total_revenue / total_orders else 0);
          m = [''total_revenue'' \<mapsto> total_revenue, ''total_orders'' \<mapsto> total_orders,
               ''active_customers'' \<mapsto> active_customers,
               ''avg_order_value'' \<mapsto> avg_order_value]
      in
        if ''date'' \<in> set (columns data) then
          let cur = current_data data; prev = previous_data data in
          if prev \<noteq> [] \<and> cur \<noteq> [] then
            let current_revenue =
                  (if ''revenue'' \<in> set (columns data) then revenue_sum cur else 0);
                previous_revenue =
                  (if ''revenue'' \<in> set (columns data) then revenue_sum prev else 0);
                revenue_growth =
                  (if previous_revenue > 0
                   then (current_revenue - previous_revenue) / previous_revenue * 100 else 0);
                current_orders = (of_nat (length cur) :: rat);
                previous_orders = (of_nat (length prev) :: rat);
                order_growth =
                  (if previous_orders > 0
                   then (current_orders - previous_orders) / previous_orders * 100 else 0);
                customer_growth =
                  (if ''customer'' \<in> set (columns data) then
                     let current_customers = customer_nunique cur;
                         previous_customers = customer_nunique prev
                     in if previous_customers > 0
                        then (current_customers - previous_customers) / previous_customers * 100
                        else 0
                   else 0);
                current_aov = (if current_orders > 0 then current_revenue / current_orders else 0);
                previous_aov =
                  (if previous_orders > 0 then previous_revenue / previous_orders else 0);
                aov_growth =
                  (if previous_aov > 0
                   then (current_aov - previous_aov) / previous_aov * 100 else 0)
            in m(''revenue_growth'' \<mapsto> revenue_growth, ''order_growth'' \<mapsto> order_growth,
                 ''customer_growth'' \<mapsto> customer_growth, ''aov_growth'' \<mapsto> aov_growth)
          else zero_growth m
        else zero_growth m)"

text \<open>
  The aggregates the growth rates compare, named as the source names them: revenue,
  number of orders, number of distinct customers and average order value of a window.
\<close>

definition window_revenue :: "dataset \<Rightarrow> txn list \<Rightarrow> rat" where
  "window_revenue data w = (if ''revenue'' \<in> set (columns data) then revenue_sum w else 0)"

definition window_orders :: "txn list \<Rightarrow> rat" where
  "window_orders w = of_nat (length w)"

definition window_aov :: "dataset \<Rightarrow> txn list \<Rightarrow> rat" where
  "window_aov data w =
     (if window_orders w > 0 then window_revenue data w / window_orders w else 0)"

definition window_customers :: "dataset \<Rightarrow> txn list \<Rightarrow> rat" where
  "window_customers data w =
     (if ''customer'' \<in> set (columns data) then customer_nunique w else 0)"

text \<open>The growth formula of the specification, with the guard the code puts on it.\<close>

definition pct_change :: "rat \<Rightarrow> rat \<Rightarrow> rat" where
  "pct_change cur prev = (cur - prev) / prev * 100"

definition guarded_growth :: "rat \<Rightarrow> rat \<Rightarrow> rat" where
  "guarded_growth cur prev = (if prev > 0 then pct_change cur prev else 0)"

definition kpi_keys :: "string set" where
  "kpi_keys = {''total_revenue'', ''total_orders'', ''active_customers'', ''avg_order_value'',
               ''revenue_growth'', ''order_growth'', ''customer_growth'', ''aov_growth''}"

text \<open>Sample datasets.\<close>

definition day :: "int \<Rightarrow> int" where
  "day n = n * 86400"

definition refund_data :: dataset where
  "refund_data = \<lparr> columns = [''date'', ''revenue'', ''customer''],
     rows = [\<lparr> date = day 0, revenue = - 10, customer = ''Customer_001'' \<rparr>,
             \<lparr> date = day 40, revenue = 5, customer = ''Customer_002'' \<rparr>] \<rparr>"

definition sales_data :: dataset where
  "sales_data = \<lparr> columns = [''date'', ''revenue'', ''customer''],
     rows = [\<lparr> date = day 0, revenue = 10, customer = ''Customer_001'' \<rparr>,
             \<lparr> date = day 5, revenue = 30, customer = ''Customer_001'' \<rparr>,
             \<lparr> date = day 35, revenue = 50, customer = ''Customer_001'' \<rparr>,
             \<lparr> date = day 40, revenue = 20, customer = ''Customer_002'' \<rparr>,
             \<lparr> date = day 41, revenue = 20, customer = ''Customer_003'' \<rparr>] \<rparr>"

section \<open>Python values, exceptions and the page\<close>

datatype pyval =
    VNone
  | VBool bool
  | VInt int
  | VFloat rat
  | VStr string
  | VDecimal int nat
  | VDate string
  | VList "pyval list"
  | VDict "(string \<times> pyval) list"

datatype exn = Exn string

fun message :: "exn \<Rightarrow> string" where
  "message (Exn s) = s"

datatype notice = Error string | Success string | Info string | Warning string

definition quoted :: "string \<Rightarrow> string" where
  "quoted s = [CHR 0x27] @ s @ [CHR 0x27]"

fun type_name :: "pyval \<Rightarrow> string" where
  "type_name VNone = ''NoneType''"
| "type_name (VBool _) = ''bool''"
| "type_name (VInt _) = ''int''"
| "type_name (VFloat _) = ''float''"
| "type_name (VStr _) = ''str''"
| "type_name (VDecimal _ _) = ''decimal.Decimal''"
| "type_name (VDate _) = ''datetime.date''"
| "type_name (VList _) = ''list''"
| "type_name (VDict _) = ''dict''"

fun truthy :: "pyval \<Rightarrow> bool" where
  "truthy VNone = False"
| "truthy (VBool b) = b"
| "truthy (VInt i) = (i \<noteq> 0)"
| "truthy (VFloat r) = (r \<noteq> 0)"
| "truthy (VStr s) = (s \<noteq> [])"
| "truthy (VDecimal u s) = (u \<noteq> 0)"
| "truthy (VDate _) = True"
| "truthy (VList xs) = (xs \<noteq> [])"
| "truthy (VDict kvs) = (kvs \<noteq> [])"

definition py_or :: "pyval \<Rightarrow> pyval \<Rightarrow> pyval" where
  "py_or a b = (if truthy a then a else b)"

fun py_float :: "pyval \<Rightarrow> exn + pyval" where
  "py_float (VBool b) = Inr (VFloat (if b then 1 else 0))"
| "py_float (VInt i) = Inr (VFloat (of_int i))"
| "py_float (VFloat r) = Inr (VFloat r)"
| "py_float (VDecimal u s) = Inr (VFloat (of_int u / 10 ^ s))"
| "py_float (VStr s) = Inl (Exn (''could not convert string to float: '' @ quoted s))"
| "py_float v = Inl (Exn (''float() argument must be a string or a real number, not ''
                          @ quoted (type_name v)))"

fun py_iter :: "pyval \<Rightarrow> exn + pyval list" where
  "py_iter (VList xs) = Inr xs"
| "py_iter (VDict kvs) = Inr (map (\<lambda>kv. VStr (fst kv)) kvs)"
| "py_iter (VStr s) = Inr (map (\<lambda>c. VStr [c]) s)"
| "py_iter v = Inl (Exn (quoted (type_name v) @ '' object is not iterable''))"

fun join :: "string \<Rightarrow> string list \<Rightarrow> string" where
  "join sep [] = []"
| "join sep [x] = x"
| "join sep (x # y # ys) = x @ sep @ join sep (y # ys)"

definition digit_char :: "nat \<Rightarrow> char" where
  "digit_char d = ''0123456789'' ! d"

fun str_nat :: "nat \<Rightarrow> string" where
  "str_nat n = (if n < 10 then [digit_char n] else str_nat (n div 10) @ [digit_char (n mod 10)])"

declare str_nat.simps [simp del]

definition str_int :: "int \<Rightarrow> string" where
  "str_int i = (if i < 0 then CHR ''-'' # str_nat (nat (- i)) else str_nat (nat i))"


section \<open>The database session (utils/database.py)\<close>

text \<open>
  What \<open>session.execute(text(query), params)\<close> hands back: a result with column names and
  rows, or a result that returns no rows (DELETE, INSERT).
\<close>

datatype result = Rows "string list" "pyval list list" | NoRows

text \<open>
  The SQLAlchemy session and the database behind it are not part of the repository. They
  are a parameter of every function below: \<open>execute\<close> runs one statement text with its
  parameters and either raises or returns a result, \<open>commit\<close> may raise, \<open>rollback\<close>
  does not. The type \<open>'db\<close> is whatever state the session and the database hold.
\<close>

record 'db engine =
  execute :: "string \<Rightarrow> pyval list option \<Rightarrow> 'db \<Rightarrow> (exn + result) \<times> 'db"
  commit :: "'db \<Rightarrow> exn option \<times> 'db"
  rollback :: "'db \<Rightarrow> 'db"

text \<open>
  A \<open>DatabaseManager\<close> on a Streamlit page: the session it owns and the notices
  (\<open>st.error\<close>, \<open>st.success\<close>, ...) shown so far, oldest first.
\<close>

record 'db manager =
  session :: 'db
  shown :: "notice list"

definition st_error :: "string \<Rightarrow> 'db manager \<Rightarrow> 'db manager" where
  "st_error msg m = m\<lparr> shown := shown m @ [Error msg] \<rparr>"

definition st_success :: "string \<Rightarrow> 'db manager \<Rightarrow> 'db manager" where
  "st_success msg m = m\<lparr> shown := shown m @ [Success msg] \<rparr>"

definition session_execute ::
  "'db engine \<Rightarrow> string \<Rightarrow> pyval list option \<Rightarrow> 'db manager \<Rightarrow> (exn + result) \<times> 'db manager" where
  "session_execute eng query params m =
     (case execute eng query params (session m) of (r, s) \<Rightarrow> (r, m\<lparr> session := s \<rparr>))"

text \<open>\<open>result.scalar()\<close>: first column of the first row, \<open>None\<close> when there is no row.\<close>

fun scalar :: "result \<Rightarrow> exn + pyval" where
  "scalar NoRows = Inl (Exn ''This result object does not return rows. It has been closed automatically.'')"
| "scalar (Rows ks []) = Inr VNone"
| "scalar (Rows ks ([] # _)) = Inl (Exn ''tuple index out of range'')"
| "scalar (Rows ks ((v # _) # _)) = Inr v"

subsection \<open>\<open>get_table_data\<close> (lines 480 to 496)\<close>

record frame =
  df_columns :: "string list"
  df_rows :: "pyval list list"

definition empty_frame :: frame where
  "empty_frame = \<lparr> df_columns = [], df_rows = [] \<rparr>"

text \<open>
  \<open>pd.DataFrame(data, columns=columns)\<close> on the fetched rows; pandas raises when a row
  does not have one cell per column.
\<close>

definition DataFrame :: "pyval list list \<Rightarrow> string list \<Rightarrow> exn + frame" where
  "DataFrame fetched names =
     (if list_all (\<lambda>r. length r = length names) fetched
      then Inr \<lparr> df_columns = names, df_rows = fetched \<rparr>
      else Inl (Exn (str_int (int (length names)) @ '' columns passed, passed data had a different number of columns'')))"

text \<open>
  The argument \<open>limit\<close> is \<open>None\<close> or the text the caller wants after \<open>LIMIT\<close>; the empty
  text is falsy and adds no clause. \<open>select_query\<close> is the text built in lines 483 to 485,
  \<open>table_data_body\<close> the body of the \<open>try\<close> with the exception that ends it, if any;
  \<open>get_table_data\<close> adds the handler.
\<close>

definition select_query :: "string \<Rightarrow> string option \<Rightarrow> string" where
  "select_query table_name limit =
    (let query = ''SELECT * FROM '' @ table_name
     in case limit of
          Some l \<Rightarrow> (if l \<noteq> [] then query @ '' LIMIT '' @ l else query)
        | None \<Rightarrow> query)"

definition table_data_body ::
  "'db engine \<Rightarrow> string \<Rightarrow> string option \<Rightarrow> 'db manager \<Rightarrow> (exn + frame) \<times> 'db manager" where
  "table_data_body eng table_name limit m =
    (case session_execute eng (select_query table_name limit) None m of
       (Inl e, m') \<Rightarrow> (Inl e, m')
     | (Inr NoRows, m') \<Rightarrow>
         (Inl (Exn ''This result object does not return rows. It has been closed automatically.''), m')
     | (Inr (Rows names fetched), m') \<Rightarrow> (DataFrame fetched names, m'))"

definition get_table_data ::
  "'db engine \<Rightarrow> string \<Rightarrow> string option \<Rightarrow> 'db manager \<Rightarrow> frame \<times> 'db manager" where
  "get_table_data eng table_name limit m =
    (case table_data_body eng table_name limit m of
       (Inr df, m') \<Rightarrow> (df, m')
     | (Inl e, m') \<Rightarrow>
         (empty_frame,
          st_error (''Error fetching data from '' @ table_name @ '': '' @ message e) m'))"

subsection \<open>\<open>execute_query\<close> (lines 498 to 511)\<close>

definition execute_query ::
  "'db engine \<Rightarrow> string \<Rightarrow> pyval list option \<Rightarrow> 'db manager \<Rightarrow> result option \<times> 'db manager" where
  "execute_query eng query params m =
    (let failed = (\<lambda>e m'. (None,
                     st_error (''Query execution error: '' @ message e)
                       (m'\<lparr> session := rollback eng (session m') \<rparr>)))
     in case (if params \<noteq> None \<and> params \<noteq> Some []
              then session_execute eng query params m
              else session_execute eng query None m) of
          (Inl e, m') \<Rightarrow> failed e m'
        | (Inr result, m') \<Rightarrow>
            (case commit eng (session m') of
               (Some e, s) \<Rightarrow> failed e (m'\<lparr> session := s \<rparr>)
             | (None, s) \<Rightarrow> (Some result, m'\<lparr> session := s \<rparr>)))"

subsection \<open>\<open>get_business_metrics\<close> (lines 513 to 541)\<close>

definition active_customers_query :: string where
  "active_customers_query =
     ''SELECT COUNT(*) FROM customers WHERE status = '' @ quoted ''Active''"

definition total_revenue_query :: string where
  "total_revenue_query = ''SELECT SUM(amount) FROM invoices WHERE status = '' @ quoted ''Paid''"

definition low_stock_query :: string where
  "low_stock_query = ''SELECT COUNT(*) FROM inventory WHERE current_stock <= reorder_point''"

definition total_employees_query :: string where
  "total_employees_query =
     ''SELECT COUNT(*) FROM employees WHERE status = '' @ quoted ''Active''"

definition active_projects_query :: string where
  "active_projects_query =
     ''SELECT COUNT(*) FROM projects WHERE status IN ('' @ quoted ''Planning'' @ '', ''
       @ quoted ''In Progress'' @ '')''"

text \<open>\<open>self.session.execute(text(q))\<close> followed by \<open>result.scalar()\<close>.\<close>

definition scalar_query ::
  "'db engine \<Rightarrow> string \<Rightarrow> 'db manager \<Rightarrow> (exn + pyval) \<times> 'db manager" where
  "scalar_query eng q m =
     (case session_execute eng q None m of
        (Inl e, m') \<Rightarrow> (Inl e, m')
      | (Inr r, m') \<Rightarrow> (scalar r, m'))"

text \<open>The body of the \<open>try\<close>: the first exception ends it.\<close>

definition metrics_body ::
  "'db engine \<Rightarrow> 'db manager \<Rightarrow> (exn + (string \<rightharpoonup> pyval)) \<times> 'db manager" where
  "metrics_body eng m0 =
    (case scalar_query eng active_customers_query m0 of
       (Inl e, m1) \<Rightarrow> (Inl e, m1)
     | (Inr v1, m1) \<Rightarrow>
    (case scalar_query eng total_revenue_query m1 of
       (Inl e, m2) \<Rightarrow> (Inl e, m2)
     | (Inr v2, m2) \<Rightarrow>
    (case py_float (py_or v2 (VInt 0)) of
       Inl e \<Rightarrow> (Inl e, m2)
     | Inr f2 \<Rightarrow>
    (case scalar_query eng low_stock_query m2 of
       (Inl e, m3) \<Rightarrow> (Inl e, m3)
     | (Inr v3, m3) \<Rightarrow>
    (case scalar_query eng total_employees_query m3 of
       (Inl e, m4) \<Rightarrow> (Inl e, m4)
     | (Inr v4, m4) \<Rightarrow>
    (case scalar_query eng active_projects_query m4 of
       (Inl e, m5) \<Rightarrow> (Inl e, m5)
     | (Inr v5, m5) \<Rightarrow>
       (Inr [''active_customers'' \<mapsto> py_or v1 (VInt 0),
             ''total_revenue'' \<mapsto> f2,
             ''low_stock_items'' \<mapsto> py_or v3 (VInt 0),
             ''total_employees'' \<mapsto> py_or v4 (VInt 0),
             ''active_projects'' \<mapsto> py_or v5 (VInt 0)], m5)))))))"

definition get_business_metrics ::
  "'db engine \<Rightarrow> 'db manager \<Rightarrow> (string \<rightharpoonup> pyval) \<times> 'db manager" where
  "get_business_metrics eng m =
    (case metrics_body eng m of
       (Inr metrics, m') \<Rightarrow> (metrics, m')
     | (Inl e, m') \<Rightarrow>
         (Map.empty, st_error (''Error getting business metrics: '' @ message e) m'))"

text \<open>The dashboard (app.py, lines 115 to 129) reads each metric with \<open>metrics.get(key, 0)\<close>.\<close>

definition metrics_get :: "(string \<rightharpoonup> pyval) \<Rightarrow> string \<Rightarrow> pyval" where
  "metrics_get metrics k = (case metrics k of Some v \<Rightarrow> v | None \<Rightarrow> VInt 0)"


section \<open>The table browser page (modules/database_admin.py, lines 76 to 78)\<close>

definition fetch_page ::
  "'db engine \<Rightarrow> string \<Rightarrow> int \<Rightarrow> int \<Rightarrow> 'db manager \<Rightarrow> frame \<times> 'db manager" where
  "fetch_page eng selected_table page_size page_num m =
    (let offset = (page_num - 1) * page_size
     in get_table_data eng selected_table
          (Some (str_int page_size @ '' OFFSET '' @ str_int offset)) m)"

section \<open>Backup and restore (modules/database_admin.py, lines 288 to 351)\<close>

text \<open>\<open>df.to_dict('records')\<close>: one dictionary per row, keyed by the column names.\<close>

definition to_dict_records :: "frame \<Rightarrow> pyval list" where
  "to_dict_records df = map (\<lambda>row. VDict (zip (df_columns df) row)) (df_rows df)"

fun backup_loop ::
  "'db engine \<Rightarrow> string list \<Rightarrow> (string \<times> pyval) list \<Rightarrow> 'db manager
     \<Rightarrow> (string \<times> pyval) list \<times> 'db manager" where
  "backup_loop eng [] backup_data m = (backup_data, m)"
| "backup_loop eng (table # rest) backup_data m =
     (case get_table_data eng table None m of
        (df, m') \<Rightarrow>
          backup_loop eng rest (AList.update table (VList (to_dict_records df)) backup_data) m')"

text \<open>
  The backup file is written with \<open>json.dumps(backup_data, indent=2, default=str)\<close> and
  read with \<open>json.loads\<close>. The text of the file is not modelled: \<open>json_document dflt v\<close>
  is the value \<open>json.loads\<close> reads back from what \<open>json.dumps\<close> wrote for \<open>v\<close>, with
  \<open>dflt\<close> for the argument \<open>default\<close>. Values that JSON has no form for (dates,
  decimals) go through it and come back as strings.
\<close>

fun json_native :: "pyval \<Rightarrow> bool" where
  "json_native (VDate _) = False"
| "json_native (VDecimal _ _) = False"
| "json_native _ = True"

fun json_document :: "(pyval \<Rightarrow> string) \<Rightarrow> pyval \<Rightarrow> pyval" where
  "json_document dflt (VDate s) = VStr (dflt (VDate s))"
| "json_document dflt (VDecimal u s) = VStr (dflt (VDecimal u s))"
| "json_document dflt (VList xs) = VList (map (json_document dflt) xs)"
| "json_document dflt (VDict kvs) =
     VDict (map (\<lambda>kv. (fst kv, json_document dflt (snd kv))) kvs)"
| "json_document dflt v = v"

text \<open>
  Python's \<open>str\<close> on the two kinds of cell that reach \<open>default\<close>: a date prints its ISO
  text, a decimal its digits with the point \<open>s\<close> places from the right (Python switches
  to exponent notation only below 1E-6; the decimal columns of this schema have scale 2).
  Floats, lists and dictionaries never reach \<open>default\<close>; their text is left empty.
\<close>

definition decimal_str :: "int \<Rightarrow> nat \<Rightarrow> string" where
  "decimal_str u s =
    (let d = str_nat (nat \<bar>u\<bar>);
         d = replicate (Suc s - length d) (CHR ''0'') @ d;
         whole = take (length d - s) d;
         fraction = drop (length d - s) d
     in (if u < 0 then ''-'' else []) @ whole @ (if s = 0 then [] else CHR ''.'' # fraction))"

fun py_str :: "pyval \<Rightarrow> string" where
  "py_str (VDate s) = s"
| "py_str (VDecimal u s) = decimal_str u s"
| "py_str (VStr s) = s"
| "py_str (VInt i) = str_int i"
| "py_str (VBool b) = (if b then ''True'' else ''False'')"
| "py_str VNone = ''None''"
| "py_str v = []"

definition create_backup ::
  "'db engine \<Rightarrow> (pyval \<Rightarrow> string) \<Rightarrow> string list \<Rightarrow> 'db manager \<Rightarrow> pyval option \<times> 'db manager" where
  "create_backup eng dflt backup_tables m =
    (if backup_tables \<noteq> [] then
       (case backup_loop eng backup_tables [] m of
          (backup_data, m') \<Rightarrow>
            if backup_data \<noteq> []
            then (Some (json_document dflt (VDict backup_data)),
                  st_success ''Backup created successfully!'' m')
            else (None, m'))
     else (None, m\<lparr> shown := shown m @ [Warning ''Please select at least one table to backup.''] \<rparr>))"

text \<open>
  Restoring one table (lines 329 to 338): the result is the exception that leaves the
  \<open>try\<close> body, if any. \<open>execute_query\<close> never raises, whatever the database answers.
\<close>

fun insert_records ::
  "'db engine \<Rightarrow> string \<Rightarrow> pyval list \<Rightarrow> 'db manager \<Rightarrow> exn option \<times> 'db manager" where
  "insert_records eng table_name [] m = (None, m)"
| "insert_records eng table_name (record # rest) m =
    (case record of
       VDict kvs \<Rightarrow>
         (let columns = map fst kvs;
              values = map snd kvs;
              placeholders = join '', '' (replicate (length values) ''%s'');
              query = ''INSERT INTO '' @ table_name @ '' ('' @ join '', '' columns
                        @ '') VALUES ('' @ placeholders @ '')''
          in case execute_query eng query (Some values) m of
               (_, m') \<Rightarrow> insert_records eng table_name rest m')
     | v \<Rightarrow> (Some (Exn (quoted (type_name v) @ '' object has no attribute '' @ quoted ''keys'')), m))"

definition restore_table ::
  "'db engine \<Rightarrow> string \<Rightarrow> pyval \<Rightarrow> 'db manager \<Rightarrow> exn option \<times> 'db manager" where
  "restore_table eng table_name records m =
    (case execute_query eng (''DELETE FROM '' @ table_name) None m of
       (_, m') \<Rightarrow>
         (case py_iter records of
            Inl e \<Rightarrow> (Some e, m')
          | Inr items \<Rightarrow> insert_records eng table_name items m'))"

fun restore_loop ::
  "'db engine \<Rightarrow> (string \<times> pyval) list \<Rightarrow> string list \<Rightarrow> 'db manager
     \<Rightarrow> string list \<times> 'db manager" where
  "restore_loop eng [] restored_tables m = (restored_tables, m)"
| "restore_loop eng ((table_name, records) # rest) restored_tables m =
    (case restore_table eng table_name records m of
       (None, m') \<Rightarrow> restore_loop eng rest (restored_tables @ [table_name]) m'
     | (Some e, m') \<Rightarrow>
         restore_loop eng rest restored_tables
           (st_error (''Error restoring '' @ table_name @ '': '' @ message e) m'))"

definition restore ::
  "'db engine \<Rightarrow> pyval \<Rightarrow> 'db manager \<Rightarrow> string list \<times> 'db manager" where
  "restore eng backup_data m =
    (case backup_data of
       VDict tables \<Rightarrow>
         (case restore_loop eng tables [] m of
            (restored_tables, m') \<Rightarrow>
              (restored_tables,
               if restored_tables \<noteq> []
               then st_success (''Successfully restored tables: '' @ join '', '' restored_tables) m'
               else st_error ''No tables were restored successfully.'' m'))
     | v \<Rightarrow>
         ([], st_error (''Error reading backup file: '' @ quoted (type_name v)
                          @ '' object has no attribute '' @ quoted ''items'') m))"

section \<open>Observing the statements a function issues\<close>

text \<open>
  \<open>recording eng\<close> behaves as \<open>eng\<close> and keeps, beside the state of \<open>eng\<close>, the list of
  the statements handed to \<open>execute\<close>, with their parameters, in order.
\<close>

type_synonym statement = "string \<times> pyval list option"

definition recording :: "'db engine \<Rightarrow> ('db \<times> statement list) engine" where
  "recording eng =
     \<lparr> execute = (\<lambda>q p sl. case execute eng q p (fst sl) of
                              (r, s') \<Rightarrow> (r, (s', snd sl @ [(q, p)]))),
       commit = (\<lambda>sl. case commit eng (fst sl) of (e, s') \<Rightarrow> (e, (s', snd sl))),
       rollback = (\<lambda>sl. (rollback eng (fst sl), snd sl)) \<rparr>"


section \<open>A reference database\<close>

text \<open>
  The database engine is an external service. To run the functions above, and to say
  what the statements they issue mean, this section gives a small engine over tables
  held in memory. It understands exactly the statement texts the program issues: the
  five aggregate queries of \<open>get_business_metrics\<close>, \<open>SELECT * FROM t\<close> with an optional
  \<open>LIMIT n\<close> and \<open>OFFSET k\<close>, \<open>DELETE FROM t\<close>, and \<open>INSERT INTO t (c, ...) VALUES (%s, ...)\<close>
  whose parameters are bound to the placeholders by position. Any other text is a
  syntax error. Cells are untyped; a column that an INSERT leaves out is NULL (column
  defaults and constraints are not modelled). A session works on its own copy of the
  tables: \<open>commit\<close> makes the copy durable, \<open>rollback\<close> goes back to the durable tables.
\<close>

record table =
  tcols :: "string list"
  trows :: "pyval list list"

type_synonym database = "string \<rightharpoonup> table"

record pg_state =
  durable :: database
  working :: database

definition strip_prefix :: "string \<Rightarrow> string \<Rightarrow> string option" where
  "strip_prefix p s = (if take (length p) s = p then Some (drop (length p) s) else None)"

definition is_digit :: "char \<Rightarrow> bool" where
  "is_digit c = (c \<in> set ''0123456789'')"

definition digit_val :: "char \<Rightarrow> nat" where
  "digit_val c = of_char c - 48"

definition parse_nat :: "string \<Rightarrow> nat option" where
  "parse_nat s =
     (if s \<noteq> [] \<and> list_all is_digit s
      then Some (foldl (\<lambda>a c. 10 * a + digit_val c) 0 s) else None)"

fun split_commas :: "string \<Rightarrow> string list" where
  "split_commas [] = [[]]"
| "split_commas (c # s) =
     (if c = CHR '','' then [] # split_commas s
      else (case split_commas s of w # ws \<Rightarrow> (c # w) # ws | [] \<Rightarrow> [[c]]))"

definition split_list :: "string \<Rightarrow> string list" where
  "split_list s = map (dropWhile (\<lambda>c. c = CHR '' '')) (split_commas s)"

definition syntax_error :: exn where
  "syntax_error = Exn ''syntax error''"

definition undefined_table :: "string \<Rightarrow> exn" where
  "undefined_table t = Exn (''relation '' @ quoted t @ '' does not exist'')"

definition undefined_column :: "string \<Rightarrow> exn" where
  "undefined_column c = Exn (''column '' @ quoted c @ '' does not exist'')"

definition cell :: "string list \<Rightarrow> pyval list \<Rightarrow> string \<Rightarrow> pyval" where
  "cell cs r c = (case map_of (zip cs r) c of Some v \<Rightarrow> v | None \<Rightarrow> VNone)"

text \<open>The conditions of the five aggregate queries; a comparison with NULL is not true.\<close>

definition status_in :: "string list \<Rightarrow> string list \<Rightarrow> pyval list \<Rightarrow> bool" where
  "status_in vs cs r = (cell cs r ''status'' \<in> set (map VStr vs))"

definition low_stock :: "string list \<Rightarrow> pyval list \<Rightarrow> bool" where
  "low_stock cs r =
     (case (cell cs r ''current_stock'', cell cs r ''reorder_point'') of
        (VInt current_stock, VInt reorder_point) \<Rightarrow> current_stock \<le> reorder_point
      | _ \<Rightarrow> False)"

definition matching ::
  "database \<Rightarrow> string \<Rightarrow> string list \<Rightarrow> (string list \<Rightarrow> pyval list \<Rightarrow> bool)
     \<Rightarrow> exn + (string list \<times> pyval list list)" where
  "matching db t needed cond =
     (case db t of
        None \<Rightarrow> Inl (undefined_table t)
      | Some tb \<Rightarrow>
          (case find (\<lambda>c. c \<notin> set (tcols tb)) needed of
             Some c \<Rightarrow> Inl (undefined_column c)
           | None \<Rightarrow> Inr (tcols tb, filter (cond (tcols tb)) (trows tb))))"

definition count_where ::
  "database \<Rightarrow> string \<Rightarrow> string list \<Rightarrow> (string list \<Rightarrow> pyval list \<Rightarrow> bool) \<Rightarrow> exn + result" where
  "count_where db t needed cond =
     (case matching db t needed cond of
        Inl e \<Rightarrow> Inl e
      | Inr (cs, rs) \<Rightarrow> Inr (Rows [''count''] [[VInt (int (length rs))]]))"

text \<open>\<open>SUM\<close> over a numeric column: NULL cells are skipped, no cell at all gives NULL.\<close>

fun as_decimal :: "pyval \<Rightarrow> (int \<times> nat) option" where
  "as_decimal (VDecimal u s) = Some (u, s)"
| "as_decimal (VInt i) = Some (i, 0)"
| "as_decimal v = None"

definition decimal_add :: "int \<times> nat \<Rightarrow> int \<times> nat \<Rightarrow> int \<times> nat" where
  "decimal_add a b =
     (let s = max (snd a) (snd b)
      in (fst a * 10 ^ (s - snd a) + fst b * 10 ^ (s - snd b), s))"

definition sql_sum :: "pyval list \<Rightarrow> pyval" where
  "sql_sum vs =
     (case List.map_filter as_decimal vs of
        [] \<Rightarrow> VNone
      | d # ds \<Rightarrow> (case fold decimal_add ds d of (u, s) \<Rightarrow> VDecimal u s))"

definition sum_where ::
  "database \<Rightarrow> string \<Rightarrow> string \<Rightarrow> string list \<Rightarrow> (string list \<Rightarrow> pyval list \<Rightarrow> bool)
     \<Rightarrow> exn + result" where
  "sum_where db t c needed cond =
     (case matching db t (c # needed) cond of
        Inl e \<Rightarrow> Inl e
      | Inr (cs, rs) \<Rightarrow> Inr (Rows [''sum''] [[sql_sum (map (\<lambda>r. cell cs r c) rs)]]))"

definition pg_delete :: "string \<Rightarrow> database \<Rightarrow> exn + (result \<times> database)" where
  "pg_delete t db =
     (case db t of
        None \<Rightarrow> Inl (undefined_table t)
      | Some tb \<Rightarrow> Inr (NoRows, db(t \<mapsto> tb\<lparr> trows := [] \<rparr>)))"

definition pg_select :: "string \<Rightarrow> database \<Rightarrow> exn + result" where
  "pg_select rest db =
    (let t = takeWhile (\<lambda>c. c \<noteq> CHR '' '') rest;
         clause = dropWhile (\<lambda>c. c \<noteq> CHR '' '') rest
     in case db t of
          None \<Rightarrow> Inl (undefined_table t)
        | Some tb \<Rightarrow>
            if clause = [] then Inr (Rows (tcols tb) (trows tb))
            else
             (case strip_prefix '' LIMIT '' clause of
                None \<Rightarrow> Inl syntax_error
              | Some l \<Rightarrow>
                 (case parse_nat (takeWhile is_digit l) of
                    None \<Rightarrow> Inl syntax_error
                  | Some n \<Rightarrow>
                      if dropWhile is_digit l = [] then Inr (Rows (tcols tb) (take n (trows tb)))
                      else
                       (case strip_prefix '' OFFSET '' (dropWhile is_digit l) of
                          None \<Rightarrow> Inl syntax_error
                        | Some k \<Rightarrow>
                           (case parse_nat k of
                              None \<Rightarrow> Inl syntax_error
                            | Some k \<Rightarrow> Inr (Rows (tcols tb) (take n (drop k (trows tb)))))))))"

definition pg_insert ::
  "string \<Rightarrow> pyval list option \<Rightarrow> database \<Rightarrow> exn + (result \<times> database)" where
  "pg_insert rest params db =
    (let t = takeWhile (\<lambda>c. c \<noteq> CHR '' '') rest;
         clause = dropWhile (\<lambda>c. c \<noteq> CHR '' '') rest
     in case db t of
          None \<Rightarrow> Inl (undefined_table t)
        | Some tb \<Rightarrow>
           (case strip_prefix '' ('' clause of
              None \<Rightarrow> Inl syntax_error
            | Some c1 \<Rightarrow>
               (case strip_prefix '') VALUES ('' (dropWhile (\<lambda>c. c \<noteq> CHR '')'') c1) of
                  None \<Rightarrow> Inl syntax_error
                | Some c2 \<Rightarrow>
                   (let column_text = takeWhile (\<lambda>c. c \<noteq> CHR '')'') c1;
                        columns = split_list column_text;
                        holders = split_list (takeWhile (\<lambda>c. c \<noteq> CHR '')'') c2);
                        values = (case params of None \<Rightarrow> [] | Some vs \<Rightarrow> vs)
                    in if dropWhile (\<lambda>c. c \<noteq> CHR '')'') c2 \<noteq> '')'' \<or> column_text = []
                          \<or> \<not> list_all (\<lambda>h. h = ''%s'') holders
                          \<or> length holders \<noteq> length columns
                       then Inl syntax_error
                       else if length values \<noteq> length holders
                       then Inl (Exn ''wrong number of parameters'')
                       else if \<not> distinct columns
                       then Inl (Exn ''column specified more than once'')
                       else
                        (case find (\<lambda>c. c \<notin> set (tcols tb)) columns of
                           Some c \<Rightarrow> Inl (undefined_column c)
                         | None \<Rightarrow>
                             Inr (NoRows,
                                  db(t \<mapsto> tb\<lparr> trows := trows tb
                                       @ [map (cell columns values) (tcols tb)] \<rparr>)))))))"

definition pg_statement ::
  "string \<Rightarrow> pyval list option \<Rightarrow> database \<Rightarrow> exn + (result \<times> database)" where
  "pg_statement q params db =
    (let query = (\<lambda>r. case r of Inl e \<Rightarrow> Inl e | Inr res \<Rightarrow> Inr (res, db))
     in if q = active_customers_query
        then query (count_where db ''customers'' [''status''] (status_in [''Active'']))
        else if q = total_revenue_query
        then query (sum_where db ''invoices'' ''amount'' [''status''] (status_in [''Paid'']))
        else if q = low_stock_query
        then query (count_where db ''inventory'' [''current_stock'', ''reorder_point''] low_stock)
        else if q = total_employees_query
        then query (count_where db ''employees'' [''status''] (status_in [''Active'']))
        else if q = active_projects_query
        then query (count_where db ''projects'' [''status'']
                      (status_in [''Planning'', ''In Progress'']))
        else
         (case strip_prefix ''SELECT * FROM '' q of
            Some rest \<Rightarrow> query (pg_select rest db)
          | None \<Rightarrow>
         (case strip_prefix ''DELETE FROM '' q of
            Some rest \<Rightarrow> pg_delete rest db
          | None \<Rightarrow>
         (case strip_prefix ''INSERT INTO '' q of
            Some rest \<Rightarrow> pg_insert rest params db
          | None \<Rightarrow> Inl syntax_error))))"

definition pg :: "pg_state engine" where
  "pg = \<lparr> execute = (\<lambda>q params s.
                       case pg_statement q params (working s) of
                         Inl e \<Rightarrow> (Inl e, s)
                       | Inr (res, db) \<Rightarrow> (Inr res, s\<lparr> working := db \<rparr>)),
          commit = (\<lambda>s. (None, s\<lparr> durable := working s \<rparr>)),
          rollback = (\<lambda>s. s\<lparr> working := durable s \<rparr>) \<rparr>"

text \<open>A fresh session on a database, on a page that shows nothing yet.\<close>

definition connect :: "database \<Rightarrow> pg_state manager" where
  "connect db = \<lparr> session = \<lparr> durable = db, working = db \<rparr>, shown = [] \<rparr>"


section \<open>Well-formed tables and backup documents\<close>

text \<open>
  A name the program can put into a statement text unquoted: not empty, and free of
  the space, the comma and the parentheses that delimit the parts of the statement.
\<close>

definition sql_name :: "string \<Rightarrow> bool" where
  "sql_name s = (s \<noteq> [] \<and> list_all (\<lambda>c. c \<notin> set '' ,()'') s)"

text \<open>A table as a relational database holds it: named, distinct columns, one cell per column.\<close>

definition well_formed_table :: "table \<Rightarrow> bool" where
  "well_formed_table tb =
     (tcols tb \<noteq> [] \<and> list_all sql_name (tcols tb) \<and> distinct (tcols tb)
      \<and> list_all (\<lambda>r. length r = length (tcols tb)) (trows tb))"

text \<open>
  A record of a backup document that fits a table: a dictionary with at least one key,
  whose keys are distinct columns of the table.
\<close>

fun record_fits :: "table \<Rightarrow> pyval \<Rightarrow> bool" where
  "record_fits tb (VDict kvs) =
     (kvs \<noteq> [] \<and> list_all sql_name (map fst kvs) \<and> distinct (map fst kvs)
      \<and> list_all (\<lambda>c. c \<in> set (tcols tb)) (map fst kvs))"
| "record_fits tb v = False"

text \<open>An entry (table name, records) of a backup document that fits a database.\<close>

definition entry_fits :: "database \<Rightarrow> string \<times> pyval \<Rightarrow> bool" where
  "entry_fits db entry =
     (sql_name (fst entry) \<and>
      (case (db (fst entry), snd entry) of
         (Some tb, VList rs) \<Rightarrow> list_all (record_fits tb) rs
       | _ \<Rightarrow> False))"

text \<open>The row a table with columns \<open>cs\<close> holds for a record: the record's value under each
  column, NULL for a column the record does not name.\<close>

fun record_row :: "string list \<Rightarrow> pyval \<Rightarrow> pyval list" where
  "record_row cs (VDict kvs) = map (cell (map fst kvs) (map snd kvs)) cs"
| "record_row cs v = []"

text \<open>
  The statement \<open>restore\<close> builds for a record (lines 333 to 337), with the parameters
  \<open>execute_query\<close> passes on: an empty list of values is falsy and passes none.
\<close>

fun insert_statement :: "string \<Rightarrow> pyval \<Rightarrow> statement" where
  "insert_statement table_name (VDict kvs) =
     (''INSERT INTO '' @ table_name @ '' ('' @ join '', '' (map fst kvs) @ '') VALUES (''
        @ join '', '' (replicate (length kvs) ''%s'') @ '')'',
      if kvs = [] then None else Some (map snd kvs))"
| "insert_statement table_name v = ([], None)"

fun is_dict :: "pyval \<Rightarrow> bool" where
  "is_dict (VDict kvs) = True"
| "is_dict v = False"

text \<open>A table with its rows replaced by those of the records of an entry.\<close>

definition replace_rows :: "string \<times> pyval \<Rightarrow> database \<Rightarrow> database" where
  "replace_rows entry db =
     (case (db (fst entry), snd entry) of
        (Some tb, VList rs) \<Rightarrow> db(fst entry \<mapsto> tb\<lparr> trows := map (record_row (tcols tb)) rs \<rparr>)
      | _ \<Rightarrow> db)"


section \<open>Sample data\<close>

text \<open>
  A small company database after the rows of \<open>insert_sample_data\<close>, cut down to the
  columns the aggregate queries read.
\<close>

definition customers_table :: table where
  "customers_table = \<lparr> tcols = [''id'', ''name'', ''status''],
     trows = [[VInt 1, VStr ''John Smith'', VStr ''Active''],
              [VInt 2, VStr ''Sarah Johnson'', VStr ''Active''],
              [VInt 3, VStr ''Mike Davis'', VStr ''Prospect''],
              [VInt 4, VStr ''Lisa Brown'', VStr ''Active''],
              [VInt 5, VStr ''Tom Wilson'', VStr ''Inactive'']] \<rparr>"

definition invoices_table :: table where
  "invoices_table = \<lparr> tcols = [''id'', ''amount'', ''invoice_date'', ''status''],
     trows = [[VInt 1, VDecimal 500000 2, VDate ''2024-01-15'', VStr ''Paid''],
              [VInt 2, VDecimal 120050 2, VDate ''2024-02-01'', VStr ''Pending'']] \<rparr>"

definition inventory_table :: table where
  "inventory_table = \<lparr> tcols = [''sku'', ''current_stock'', ''reorder_point''],
     trows = [[VStr ''LAP-001'', VInt 25, VInt 10],
              [VStr ''CHR-002'', VInt 8, VInt 15],
              [VStr ''PRT-003'', VInt 45, VInt 20]] \<rparr>"

definition employees_table :: table where
  "employees_table = \<lparr> tcols = [''employee_id'', ''status''],
     trows = [[VStr ''EMP-001'', VStr ''Active'']] \<rparr>"

definition projects_table :: table where
  "projects_table = \<lparr> tcols = [''project_name'', ''status''],
     trows = [[VStr ''Website Redesign'', VStr ''In Progress''],
              [VStr ''Database Migration'', VStr ''Completed'']] \<rparr>"

definition company_db :: database where
  "company_db = [''customers'' \<mapsto> customers_table, ''invoices'' \<mapsto> invoices_table,
                 ''inventory'' \<mapsto> inventory_table, ''employees'' \<mapsto> employees_table,
                 ''projects'' \<mapsto> projects_table]"

text \<open>The same database before the invoices table was created.\<close>

definition no_invoices_db :: database where
  "no_invoices_db = [''customers'' \<mapsto> customers_table,
                     ''inventory'' \<mapsto> inventory_table, ''employees'' \<mapsto> employees_table,
                     ''projects'' \<mapsto> projects_table]"

text \<open>Two backup documents: one customer for the customers table, and one row for a
  table the database does not have.\<close>

definition ann_backup :: pyval where
  "ann_backup = VDict [(''customers'', VList [VDict [(''id'', VInt 1), (''name'', VStr ''Ann'')]])]"

definition ghost_backup :: pyval where
  "ghost_backup = VDict [(''ghost'', VList [VDict [(''id'', VInt 1)]])]"

definition metric_keys :: "string set" where
  "metric_keys = {''active_customers'', ''total_revenue'', ''low_stock_items'',
                  ''total_employees'', ''active_projects''}"

definition metric_queries :: "string list" where
  "metric_queries = [active_customers_query, total_revenue_query, low_stock_query,
                     total_employees_query, active_projects_query]"

section \<open>Properties of the KPI metrics\<close>

lemma date_max_mem: "rs \<noteq> [] \<Longrightarrow> date_max rs \<in> date ` set rs"
  unfolding date_max_def using Max_in [of "set (map date rs)"] by simp

lemma current_data_nonempty:
  assumes "rows data \<noteq> []"
  shows "current_data data \<noteq> []"
proof -
  from date_max_mem [OF assms] obtain r where r: "r \<in> set (rows data)"
    and d: "date r = date_max (rows data)" by auto
  have "date r \<ge> current_start data"
    by (simp add: current_start_def timedelta_days_def d)
  with r have "r \<in> set (current_data data)" by (simp add: current_data_def)
  then show ?thesis by auto
qed

lemma kpi_dom: "dom (get_kpi_metrics data) = kpi_keys"
  by (auto simp: get_kpi_metrics_def kpi_keys_def zero_growth_def Let_def)

lemma kpi_empty: "df_empty data \<Longrightarrow> k \<in> kpi_keys \<Longrightarrow> get_kpi_metrics data k = Some 0"
  by (auto simp: get_kpi_metrics_def kpi_keys_def)

lemma kpi_total_revenue:
  "get_kpi_metrics data ''total_revenue'' =
     Some (if df_empty data then 0 else window_revenue data (rows data))"
  by (simp add: get_kpi_metrics_def zero_growth_def Let_def window_revenue_def)

lemma kpi_total_orders:
  "get_kpi_metrics data ''total_orders'' =
     Some (if df_empty data then 0 else of_nat (length (rows data)))"
  by (simp add: get_kpi_metrics_def zero_growth_def Let_def)

lemma kpi_avg_order_value:
  "get_kpi_metrics data ''avg_order_value'' =
     Some (if df_empty data then 0
           else if (of_nat (length (rows data)) :: rat) > 0
                then window_revenue data (rows data) / of_nat (length (rows data)) else 0)"
  by (simp add: get_kpi_metrics_def zero_growth_def Let_def window_revenue_def)

text \<open>
  The growth branch proper: both windows hold rows. The current window always holds the
  row of the latest date, so the test on it in line 208 never fails on a frame with rows.
\<close>

lemma kpi_growth_branch:
  assumes "\<not> df_empty data" "''date'' \<in> set (columns data)" "previous_data data \<noteq> []"
  shows "get_kpi_metrics data ''revenue_growth'' =
           Some (guarded_growth (window_revenue data (current_data data))
                                (window_revenue data (previous_data data)))"
    and "get_kpi_metrics data ''order_growth'' =
           Some (guarded_growth (window_orders (current_data data))
                                (window_orders (previous_data data)))"
    and "get_kpi_metrics data ''customer_growth'' =
           Some (guarded_growth (window_customers data (current_data data))
                                (window_customers data (previous_data data)))"
    and "get_kpi_metrics data ''aov_growth'' =
           Some (guarded_growth (window_aov data (current_data data))
                                (window_aov data (previous_data data)))"
proof -
  from assms(1) have ne: "rows data \<noteq> []" by (simp add: df_empty_def)
  note c = current_data_nonempty [OF ne]
  show "get_kpi_metrics data ''revenue_growth'' =
           Some (guarded_growth (window_revenue data (current_data data))
                                (window_revenue data (previous_data data)))"
    using assms c
    by (simp add: get_kpi_metrics_def Let_def guarded_growth_def pct_change_def
        window_revenue_def)
  show "get_kpi_metrics data ''order_growth'' =
           Some (guarded_growth (window_orders (current_data data))
                                (window_orders (previous_data data)))"
    using assms c
    by (simp add: get_kpi_metrics_def Let_def guarded_growth_def pct_change_def
        window_orders_def)
  show "get_kpi_metrics data ''customer_growth'' =
           Some (guarded_growth (window_customers data (current_data data))
                                (window_customers data (previous_data data)))"
    using assms c
    by (simp add: get_kpi_metrics_def Let_def guarded_growth_def pct_change_def
        window_customers_def)
  show "get_kpi_metrics data ''aov_growth'' =
           Some (guarded_growth (window_aov data (current_data data))
                                (window_aov data (previous_data data)))"
    using assms c
    by (simp add: get_kpi_metrics_def Let_def guarded_growth_def pct_change_def
        window_aov_def window_orders_def window_revenue_def)
qed

text \<open>No row in the previous window (or no row at all): every aggregate of it is 0.\<close>

lemma kpi_growth_no_previous:
  assumes "''date'' \<in> set (columns data)" "previous_data data = []"
  shows "get_kpi_metrics data ''revenue_growth'' =
           Some (guarded_growth (window_revenue data (current_data data))
                                (window_revenue data (previous_data data)))"
    and "get_kpi_metrics data ''order_growth'' =
           Some (guarded_growth (window_orders (current_data data))
                                (window_orders (previous_data data)))"
    and "get_kpi_metrics data ''customer_growth'' =
           Some (guarded_growth (window_customers data (current_data data))
                                (window_customers data (previous_data data)))"
    and "get_kpi_metrics data ''aov_growth'' =
           Some (guarded_growth (window_aov data (current_data data))
                                (window_aov data (previous_data data)))"
  using assms
  by (simp_all add: get_kpi_metrics_def Let_def zero_growth_def guarded_growth_def
      window_revenue_def window_orders_def window_customers_def window_aov_def
      revenue_sum_def customer_nunique_def)

lemma previous_data_of_empty: "df_empty data \<Longrightarrow> ''date'' \<in> set (columns data) \<Longrightarrow>
    previous_data data = []"
  by (auto simp: df_empty_def previous_data_def)

lemma refund_previous:
  "previous_data refund_data = [\<lparr> date = 0, revenue = - 10, customer = ''Customer_001'' \<rparr>]"
  by (simp add: previous_data_def refund_data_def current_start_def previous_start_def
      date_max_def day_def timedelta_days_def)

lemma refund_current:
  "current_data refund_data =
     [\<lparr> date = 3456000, revenue = 5, customer = ''Customer_002'' \<rparr>]"
  by (simp add: current_data_def refund_data_def current_start_def previous_start_def
      date_max_def day_def timedelta_days_def)

lemma sales_previous:
  "previous_data sales_data =
     [\<lparr> date = 0, revenue = 10, customer = ''Customer_001'' \<rparr>,
      \<lparr> date = 432000, revenue = 30, customer = ''Customer_001'' \<rparr>]"
  by (simp add: previous_data_def sales_data_def current_start_def previous_start_def
      date_max_def day_def timedelta_days_def)

lemma sales_current:
  "current_data sales_data =
     [\<lparr> date = 3024000, revenue = 50, customer = ''Customer_001'' \<rparr>,
      \<lparr> date = 3456000, revenue = 20, customer = ''Customer_002'' \<rparr>,
      \<lparr> date = 3542400, revenue = 20, customer = ''Customer_003'' \<rparr>]"
  by (simp add: current_data_def sales_data_def current_start_def previous_start_def
      date_max_def day_def timedelta_days_def)

text \<open>
  C2, as the specification states it: every growth rate is the percentage change
  \<open>(current - previous) / previous * 100\<close>, and 0 exactly when the previous aggregate
  is 0. The statement fails on a dataset whose previous window sums to a negative
  revenue (a refund of 10 forty days before a sale of 5): the previous aggregate is
  not 0, the percentage change is -150, and the code reports 0.
\<close>

theorem kpi_growth_negative_previous_counterexample:
  "window_revenue refund_data (previous_data refund_data) \<noteq> 0 \<and>
   get_kpi_metrics refund_data ''revenue_growth'' \<noteq>
     Some (pct_change (window_revenue refund_data (current_data refund_data))
                      (window_revenue refund_data (previous_data refund_data))) \<and>
   get_kpi_metrics refund_data ''revenue_growth'' = Some 0"
  by (simp add: refund_previous refund_current get_kpi_metrics_def Let_def
      window_revenue_def pct_change_def revenue_sum_def df_empty_def)
     (simp add: refund_data_def)

text \<open>
  C2, amended: for every dataset with a date column, each of the four growth rates
  (revenue, order count, unique customers, average order value) equals
  \<open>(current - previous) / previous * 100\<close> over the rows dated within 30 days of the
  latest date against the rows of the 30 days before, whenever the previous aggregate
  is greater than 0, and is exactly 0 whenever the previous aggregate is 0 or negative.
\<close>

theorem kpi_growth_rates:
  assumes "''date'' \<in> set (columns data)"
  shows "get_kpi_metrics data ''revenue_growth'' =
           Some (guarded_growth (window_revenue data (current_data data))
                                (window_revenue data (previous_data data))) \<and>
         get_kpi_metrics data ''order_growth'' =
           Some (guarded_growth (window_orders (current_data data))
                                (window_orders (previous_data data))) \<and>
         get_kpi_metrics data ''customer_growth'' =
           Some (guarded_growth (window_customers data (current_data data))
                                (window_customers data (previous_data data))) \<and>
         get_kpi_metrics data ''aov_growth'' =
           Some (guarded_growth (window_aov data (current_data data))
                                (window_aov data (previous_data data)))"
proof (cases "previous_data data = []")
  case True
  from kpi_growth_no_previous [OF assms True] show ?thesis by simp
next
  case False
  with previous_data_of_empty assms have "\<not> df_empty data" by blast
  from kpi_growth_branch [OF this assms False] show ?thesis by simp
qed

theorem kpi_growth_rates_witness:
  "''date'' \<in> set (columns sales_data) \<and>
   get_kpi_metrics sales_data ''revenue_growth'' = Some 125 \<and>
   get_kpi_metrics sales_data ''order_growth'' = Some 50 \<and>
   get_kpi_metrics sales_data ''customer_growth'' = Some 200 \<and>
   get_kpi_metrics sales_data ''aov_growth'' = Some 50"
proof -
  have h: "''date'' \<in> set (columns sales_data)" by (simp add: sales_data_def)
  have c: "columns sales_data = [''date'', ''revenue'', ''customer'']"
    by (simp add: sales_data_def)
  show ?thesis
    using h kpi_growth_rates [OF h]
    by (simp add: sales_previous sales_current guarded_growth_def pct_change_def
        window_revenue_def window_orders_def window_customers_def window_aov_def
        revenue_sum_def customer_nunique_def c)
qed

text \<open>
  C10: for every dataset, the empty one included, \<open>get_kpi_metrics\<close> returns a mapping
  with exactly the eight keys \<open>total_revenue\<close>, \<open>total_orders\<close>, \<open>active_customers\<close>,
  \<open>avg_order_value\<close>, \<open>revenue_growth\<close>, \<open>order_growth\<close>, \<open>customer_growth\<close>, \<open>aov_growth\<close>;
  on empty input all eight are 0; and \<open>avg_order_value\<close> is \<open>total_revenue / total_orders\<close>
  when \<open>total_orders > 0\<close> and 0 otherwise.
\<close>

theorem kpi_metrics_keys_and_average:
  "dom (get_kpi_metrics data) = kpi_keys \<and>
   (df_empty data \<longrightarrow> (\<forall>k \<in> kpi_keys. get_kpi_metrics data k = Some 0)) \<and>
   (\<exists>total_revenue total_orders.
      get_kpi_metrics data ''total_revenue'' = Some total_revenue \<and>
      get_kpi_metrics data ''total_orders'' = Some total_orders \<and>
      get_kpi_metrics data ''avg_order_value'' =
        Some (if total_orders > 0 then total_revenue / total_orders else 0))"
proof (intro conjI)
  show "dom (get_kpi_metrics data) = kpi_keys" by (rule kpi_dom)
  show "df_empty data \<longrightarrow> (\<forall>k \<in> kpi_keys. get_kpi_metrics data k = Some 0)"
    using kpi_empty by blast
  show "\<exists>total_revenue total_orders.
      get_kpi_metrics data ''total_revenue'' = Some total_revenue \<and>
      get_kpi_metrics data ''total_orders'' = Some total_orders \<and>
      get_kpi_metrics data ''avg_order_value'' =
        Some (if total_orders > 0 then total_revenue / total_orders else 0)"
    by (simp add: kpi_total_revenue kpi_total_orders kpi_avg_order_value)
qed

theorem kpi_metrics_keys_and_average_witness:
  "df_empty \<lparr> columns = [''date'', ''revenue''], rows = [] \<rparr> \<and>
   get_kpi_metrics \<lparr> columns = [''date'', ''revenue''], rows = [] \<rparr> ''aov_growth'' = Some 0 \<and>
   dom (get_kpi_metrics sales_data) = kpi_keys \<and>
   get_kpi_metrics sales_data ''avg_order_value'' = Some 26"
proof -
  have e: "df_empty \<lparr> columns = [''date'', ''revenue''], rows = [] \<rparr>"
    by (simp add: df_empty_def)
  have k: "''aov_growth'' \<in> kpi_keys" by (simp add: kpi_keys_def)
  have a: "get_kpi_metrics sales_data ''avg_order_value'' = Some 26"
    by (simp add: kpi_avg_order_value df_empty_def sales_data_def window_revenue_def
        revenue_sum_def)
  from kpi_metrics_keys_and_average [of "\<lparr> columns = [''date'', ''revenue''], rows = [] \<rparr>"]
    kpi_metrics_keys_and_average [of sales_data] e k a
  show ?thesis by blast
qed

section \<open>Properties of the database layer\<close>

lemma strip_prefix_append: "strip_prefix p (p @ r) = Some r"
  by (simp add: strip_prefix_def)

lemma digit_cases:
  assumes "d < (10::nat)"
  shows "d = 0 \<or> d = 1 \<or> d = 2 \<or> d = 3 \<or> d = 4 \<or> d = 5 \<or> d = 6 \<or> d = 7 \<or> d = 8 \<or> d = 9"
  using assms by arith

lemma digit_char_is_digit: "d < 10 \<Longrightarrow> is_digit (digit_char d)"
  using digit_cases [of d] by (auto simp: is_digit_def digit_char_def)

lemma digit_val_digit_char: "d < 10 \<Longrightarrow> digit_val (digit_char d) = d"
  using digit_cases [of d] by (auto simp: digit_val_def digit_char_def)

lemma str_nat_digits: "list_all is_digit (str_nat n)"
proof (induction n rule: str_nat.induct)
  case (1 n)
  show ?case
  proof (cases "n < 10")
    case True
    then show ?thesis by (subst str_nat.simps) (simp add: digit_char_is_digit)
  next
    case False
    with 1 show ?thesis by (subst str_nat.simps) (simp add: digit_char_is_digit)
  qed
qed

lemma str_nat_nonempty: "str_nat n \<noteq> []"
  by (subst str_nat.simps) simp

lemma foldl_str_nat:
  "foldl (\<lambda>a c. 10 * a + digit_val c) 0 (str_nat n) = n"
proof (induction n rule: str_nat.induct)
  case (1 n)
  show ?case
  proof (cases "n < 10")
    case True
    then show ?thesis by (subst str_nat.simps) (simp add: digit_val_digit_char)
  next
    case False
    with 1 show ?thesis by (subst str_nat.simps) (simp add: digit_val_digit_char)
  qed
qed

lemma parse_nat_str_nat: "parse_nat (str_nat n) = Some n"
  by (simp add: parse_nat_def str_nat_nonempty str_nat_digits foldl_str_nat)

lemma str_int_nat: "0 \<le> i \<Longrightarrow> str_int i = str_nat (nat i)"
  by (simp add: str_int_def)

lemma takeWhile_digits:
  "list_all is_digit ds \<Longrightarrow> \<not> is_digit c \<Longrightarrow> takeWhile is_digit (ds @ c # r) = ds"
  by (induction ds) auto

lemma dropWhile_digits:
  "list_all is_digit ds \<Longrightarrow> \<not> is_digit c \<Longrightarrow> dropWhile is_digit (ds @ c # r) = c # r"
  by (induction ds) auto

lemma takeWhile_word:
  "c \<notin> set w \<Longrightarrow> takeWhile (\<lambda>x. x \<noteq> c) (w @ c # r) = w"
  by (induction w) auto

lemma dropWhile_word:
  "c \<notin> set w \<Longrightarrow> dropWhile (\<lambda>x. x \<noteq> c) (w @ c # r) = c # r"
  by (induction w) auto

lemma takeWhile_all: "c \<notin> set w \<Longrightarrow> takeWhile (\<lambda>x. x \<noteq> c) w = w"
  by (induction w) auto

lemma dropWhile_all: "c \<notin> set w \<Longrightarrow> dropWhile (\<lambda>x. x \<noteq> c) w = []"
  by (induction w) auto

lemma split_commas_nonempty: "split_commas s \<noteq> []"
  by (induction s) (auto split: list.splits)

lemma split_commas_word: "CHR '','' \<notin> set w \<Longrightarrow> split_commas w = [w]"
  by (induction w) (auto split: list.splits)

lemma split_commas_append:
  "CHR '','' \<notin> set w \<Longrightarrow> split_commas (w @ CHR '','' # r) = w # split_commas r"
  by (induction w) (auto split: list.splits)

lemmas metric_query_defs = active_customers_query_def total_revenue_query_def low_stock_query_def
  total_employees_query_def active_projects_query_def

lemma pg_statement_select:
  "pg_statement (''SELECT * FROM '' @ rest) params db =
     (case pg_select rest db of Inl e \<Rightarrow> Inl e | Inr res \<Rightarrow> Inr (res, db))"
  by (simp add: pg_statement_def metric_query_defs strip_prefix_def)

lemma pg_statement_delete:
  "pg_statement (''DELETE FROM '' @ rest) params db = pg_delete rest db"
  by (simp add: pg_statement_def metric_query_defs strip_prefix_def)

lemma pg_statement_insert:
  "pg_statement (''INSERT INTO '' @ rest) params db = pg_insert rest params db"
  by (simp add: pg_statement_def metric_query_defs strip_prefix_def)

lemma pg_select_all:
  assumes "CHR '' '' \<notin> set t" "db t = Some tb"
  shows "pg_select t db = Inr (Rows (tcols tb) (trows tb))"
  using assms by (simp add: pg_select_def takeWhile_all dropWhile_all)

lemma space_not_digit: "\<not> is_digit (CHR '' '')"
  by (simp add: is_digit_def)

lemma takeWhile_digits_all: "list_all is_digit ds \<Longrightarrow> takeWhile is_digit ds = ds"
  by (induction ds) auto

lemma dropWhile_digits_all: "list_all is_digit ds \<Longrightarrow> dropWhile is_digit ds = []"
  by (induction ds) auto

lemma pg_select_page:
  assumes "CHR '' '' \<notin> set t" "db t = Some tb"
  shows "pg_select (t @ '' LIMIT '' @ str_nat n @ '' OFFSET '' @ str_nat k) db =
           Inr (Rows (tcols tb) (take n (drop k (trows tb))))"
proof -
  have w: "takeWhile (\<lambda>c. c \<noteq> CHR '' '') (t @ '' LIMIT '' @ str_nat n @ '' OFFSET '' @ str_nat k) = t"
    using takeWhile_word [OF assms(1)] by simp
  have d: "dropWhile (\<lambda>c. c \<noteq> CHR '' '') (t @ '' LIMIT '' @ str_nat n @ '' OFFSET '' @ str_nat k)
             = '' LIMIT '' @ str_nat n @ '' OFFSET '' @ str_nat k"
    using dropWhile_word [OF assms(1)] by simp
  have s1: "strip_prefix '' LIMIT '' ('' LIMIT '' @ str_nat n @ '' OFFSET '' @ str_nat k)
             = Some (str_nat n @ '' OFFSET '' @ str_nat k)"
    by (rule strip_prefix_append)
  have t2: "takeWhile is_digit (str_nat n @ '' OFFSET '' @ str_nat k) = str_nat n"
    using takeWhile_digits [OF str_nat_digits space_not_digit] by simp
  have d2: "dropWhile is_digit (str_nat n @ '' OFFSET '' @ str_nat k) = '' OFFSET '' @ str_nat k"
    using dropWhile_digits [OF str_nat_digits space_not_digit] by simp
  have s2: "strip_prefix '' OFFSET '' ('' OFFSET '' @ str_nat k) = Some (str_nat k)"
    by (rule strip_prefix_append)
  show ?thesis
    unfolding pg_select_def Let_def w d
    by (simp only: assms(2) option.case s1 t2 d2 s2 parse_nat_str_nat) simp
qed

lemma sql_name_chars:
  assumes "sql_name s"
  shows "CHR '' '' \<notin> set s" "CHR '','' \<notin> set s" "CHR '')'' \<notin> set s" "s \<noteq> []"
  using assms by (auto simp: sql_name_def list_all_iff)

lemma sql_name_ltrim: "sql_name s \<Longrightarrow> dropWhile (\<lambda>c. c = CHR '' '') s = s"
  by (cases s) (auto simp: sql_name_def)

lemma split_list_join:
  "cs \<noteq> [] \<Longrightarrow> list_all sql_name cs \<Longrightarrow> split_list (join '', '' cs) = cs"
proof (induction "'', ''" cs rule: join.induct)
  case 1
  then show ?case by simp
next
  case (2 x)
  then show ?case
    by (simp add: split_list_def split_commas_word sql_name_chars sql_name_ltrim)
next
  case (3 x y ys)
  have "split_commas (x @ '', '' @ join '', '' (y # ys)) = x # split_commas (CHR '' '' # join '', '' (y # ys))"
    using split_commas_append [of x] 3 by (simp add: sql_name_chars)
  moreover have "split_commas (CHR '' '' # join '', '' (y # ys)) =
        (case split_commas (join '', '' (y # ys)) of w # ws \<Rightarrow> (CHR '' '' # w) # ws | [] \<Rightarrow> [[CHR '' '']])"
    by simp
  ultimately show ?case using 3
    by (auto simp: split_list_def sql_name_ltrim split: list.splits)
qed

lemma join_no_paren:
  "list_all sql_name cs \<Longrightarrow> CHR '')'' \<notin> set (join '', '' cs)"
  by (induction "'', ''" cs rule: join.induct) (auto simp: sql_name_chars)

lemma join_nonempty:
  "cs \<noteq> [] \<Longrightarrow> list_all sql_name cs \<Longrightarrow> join '', '' cs \<noteq> []"
  by (induction "'', ''" cs rule: join.induct) (auto simp: sql_name_chars)

lemma holder_identifier: "sql_name ''%s''"
  by (simp add: sql_name_def)

lemma pg_insert_ok:
  assumes t: "CHR '' '' \<notin> set t" and tb: "db t = Some tb"
    and cs: "cs \<noteq> []" "list_all sql_name cs" "distinct cs" "list_all (\<lambda>c. c \<in> set (tcols tb)) cs"
    and vs: "length vs = length cs"
  shows "pg_insert (t @ '' ('' @ join '', '' cs @ '') VALUES (''
                      @ join '', '' (replicate (length vs) ''%s'') @ '')'') (Some vs) db =
           Inr (NoRows, db(t \<mapsto> tb\<lparr> trows := trows tb @ [map (cell cs vs) (tcols tb)] \<rparr>))"
proof -
  let ?hs = "replicate (length vs) ''%s''"
  let ?tail = "'' ('' @ join '', '' cs @ '') VALUES ('' @ join '', '' ?hs @ '')''"
  have hs: "?hs \<noteq> []" "list_all sql_name ?hs"
    using cs(1) vs by (auto simp: list_all_iff sql_name_def)
  have w: "takeWhile (\<lambda>c. c \<noteq> CHR '' '') (t @ ?tail) = t"
    using takeWhile_word [OF t] by simp
  have d: "dropWhile (\<lambda>c. c \<noteq> CHR '' '') (t @ ?tail) = ?tail"
    using dropWhile_word [OF t] by simp
  have s1: "strip_prefix '' ('' ?tail = Some (join '', '' cs @ '') VALUES ('' @ join '', '' ?hs @ '')'')"
    using strip_prefix_append [of "'' (''"] by simp
  have t1: "takeWhile (\<lambda>c. c \<noteq> CHR '')'') (join '', '' cs @ '') VALUES ('' @ join '', '' ?hs @ '')'')
             = join '', '' cs"
    using takeWhile_word [OF join_no_paren [OF cs(2)]] by simp
  have d1: "dropWhile (\<lambda>c. c \<noteq> CHR '')'') (join '', '' cs @ '') VALUES ('' @ join '', '' ?hs @ '')'')
             = '') VALUES ('' @ join '', '' ?hs @ '')''"
    using dropWhile_word [OF join_no_paren [OF cs(2)]] by simp
  have s2: "strip_prefix '') VALUES ('' ('') VALUES ('' @ join '', '' ?hs @ '')'')
             = Some (join '', '' ?hs @ '')'')"
    by (rule strip_prefix_append)
  have t2: "takeWhile (\<lambda>c. c \<noteq> CHR '')'') (join '', '' ?hs @ '')'') = join '', '' ?hs"
    using takeWhile_word [OF join_no_paren [OF hs(2)], of "[]"] by simp
  have d2: "dropWhile (\<lambda>c. c \<noteq> CHR '')'') (join '', '' ?hs @ '')'') = '')''"
    using dropWhile_word [OF join_no_paren [OF hs(2)], of "[]"] by simp
  have f: "find (\<lambda>c. c \<notin> set (tcols tb)) cs = None"
    using cs(4) by (simp add: find_None_iff list_all_iff)
  have a: "list_all (\<lambda>h. h = ''%s'') ?hs"
    by (simp add: list_all_iff)
  show ?thesis
    unfolding pg_insert_def Let_def w d
    by (simp only: tb option.case s1 t1 d1 s2 t2 d2 split_list_join [OF cs(1,2)]
        split_list_join [OF hs] f)
       (simp add: list_all_iff vs cs(3) join_nonempty [OF cs(1,2)])
qed

lemma execute_pg: "execute pg q p s =
    (case pg_statement q p (working s) of
       Inl e \<Rightarrow> (Inl e, s)
     | Inr (res, db) \<Rightarrow> (Inr res, s\<lparr> working := db \<rparr>))"
  by (simp add: pg_def)

lemma commit_pg: "commit pg s = (None, s\<lparr> durable := working s \<rparr>)"
  by (simp add: pg_def)

lemma rollback_pg: "rollback pg s = s\<lparr> working := durable s \<rparr>"
  by (simp add: pg_def)

lemma execute_query_unfold:
  "execute_query eng q params m =
    (case execute eng q (if params = Some [] then None else params) (session m) of
       (Inl e, s) \<Rightarrow>
         (None, \<lparr> session = rollback eng s,
                  shown = shown m @ [Error (''Query execution error: '' @ message e)] \<rparr>)
     | (Inr res, s) \<Rightarrow>
         (case commit eng s of
            (Some e, s') \<Rightarrow>
              (None, \<lparr> session = rollback eng s',
                       shown = shown m @ [Error (''Query execution error: '' @ message e)] \<rparr>)
          | (None, s') \<Rightarrow> (Some res, \<lparr> session = s', shown = shown m \<rparr>)))"
proof (cases "params = None \<or> params = Some []")
  case True
  then show ?thesis
    by (auto simp: execute_query_def session_execute_def st_error_def Let_def
        split: prod.splits sum.splits option.splits)
next
  case False
  then show ?thesis
    by (simp add: execute_query_def session_execute_def st_error_def Let_def
        split: prod.splits sum.splits option.splits)
qed

lemma execute_query_pg_ok:
  assumes "pg_statement q (if params = Some [] then None else params) db = Inr (res, db')"
  shows "execute_query pg q params \<lparr> session = \<lparr> durable = d, working = db \<rparr>, shown = ns \<rparr> =
           (Some res, \<lparr> session = \<lparr> durable = db', working = db' \<rparr>, shown = ns \<rparr>)"
  unfolding execute_query_unfold using assms
  by (simp add: execute_pg commit_pg)

lemma execute_query_pg_failed:
  assumes "pg_statement q (if params = Some [] then None else params) db = Inl e"
  shows "execute_query pg q params \<lparr> session = \<lparr> durable = d, working = db \<rparr>, shown = ns \<rparr> =
           (None, \<lparr> session = \<lparr> durable = d, working = d \<rparr>,
                    shown = ns @ [Error (''Query execution error: '' @ message e)] \<rparr>)"
  unfolding execute_query_unfold using assms
  by (simp add: execute_pg rollback_pg)

lemma record_fits_cols: "tcols tb' = tcols tb \<Longrightarrow> record_fits tb' r = record_fits tb r"
  by (cases r) simp_all

lemma record_fits_trows: "record_fits (tb\<lparr> trows := rs \<rparr>) = record_fits tb"
  by (rule ext, rule record_fits_cols) simp

lemma sql_name_no_space: "sql_name t \<Longrightarrow> CHR '' '' \<notin> set t"
  by (auto simp: sql_name_def list_all_iff)

lemma pg_insert_record:
  assumes "sql_name t" "db t = Some tb" "record_fits tb (VDict kvs)"
  shows "pg_insert (t @ '' ('' @ join '', '' (map fst kvs) @ '') VALUES (''
                      @ join '', '' (replicate (length (map snd kvs)) ''%s'') @ '')'') (Some (map snd kvs)) db =
           Inr (NoRows, db(t \<mapsto> tb\<lparr> trows := trows tb @ [map (cell (map fst kvs) (map snd kvs)) (tcols tb)] \<rparr>))"
  proof (rule pg_insert_ok)
    show "CHR '' '' \<notin> set t" using assms(1) by (rule sql_name_no_space)
    show "db t = Some tb" by fact
    show "map fst kvs \<noteq> []" using assms(3) by simp
    show "list_all sql_name (map fst kvs)" using assms(3) by simp
    show "distinct (map fst kvs)" using assms(3) by simp
    show "list_all (\<lambda>c. c \<in> set (tcols tb)) (map fst kvs)" using assms(3) by simp
    show "length (map snd kvs) = length (map fst kvs)" by simp
  qed


lemma execute_query_insert_pg:
  assumes "sql_name t" "db t = Some tb" "record_fits tb (VDict kvs)"
  shows "execute_query pg (''INSERT INTO '' @ t @ '' ('' @ join '', '' (map fst kvs) @ '') VALUES (''
                      @ join '', '' (replicate (length (map snd kvs)) ''%s'') @ '')'') (Some (map snd kvs))
            \<lparr> session = \<lparr> durable = d, working = db \<rparr>, shown = ns \<rparr> =
         (Some NoRows,
          \<lparr> session = \<lparr> durable = db(t \<mapsto> tb\<lparr> trows := trows tb @ [record_row (tcols tb) (VDict kvs)] \<rparr>),
                        working = db(t \<mapsto> tb\<lparr> trows := trows tb @ [record_row (tcols tb) (VDict kvs)] \<rparr>) \<rparr>,
            shown = ns \<rparr>)"
proof -
  have ne: "Some (map snd kvs) \<noteq> Some []" using assms(3) by simp
  have "pg_statement (''INSERT INTO '' @ t @ '' ('' @ join '', '' (map fst kvs) @ '') VALUES (''
                      @ join '', '' (replicate (length (map snd kvs)) ''%s'') @ '')'')
          (if Some (map snd kvs) = Some [] then None else Some (map snd kvs)) db =
        Inr (NoRows, db(t \<mapsto> tb\<lparr> trows := trows tb @ [record_row (tcols tb) (VDict kvs)] \<rparr>))"
    by (simp only: ne if_False pg_statement_insert pg_insert_record [of t db tb kvs, OF assms] record_row.simps)
  from execute_query_pg_ok [OF this] show ?thesis .
qed

lemma insert_records_pg:
  assumes "sql_name t" "db t = Some tb" "list_all (record_fits tb) rs"
  shows "insert_records pg t rs \<lparr> session = \<lparr> durable = db, working = db \<rparr>, shown = ns \<rparr> =
           (None, \<lparr> session =
                      \<lparr> durable = db(t \<mapsto> tb\<lparr> trows := trows tb @ map (record_row (tcols tb)) rs \<rparr>),
                        working = db(t \<mapsto> tb\<lparr> trows := trows tb @ map (record_row (tcols tb)) rs \<rparr>) \<rparr>,
                    shown = ns \<rparr>)"
  using assms
proof (induction rs arbitrary: db tb)
  case Nil
  then have "db(t \<mapsto> tb) = db" by (simp add: map_upd_triv)
  then show ?case by simp
next
  case (Cons r rs)
  from Cons.prems(3) obtain kvs where r: "r = VDict kvs" and fits: "record_fits tb (VDict kvs)"
    by (cases r) auto
  let ?tb1 = "tb\<lparr> trows := trows tb @ [record_row (tcols tb) (VDict kvs)] \<rparr>"
  let ?db1 = "db(t \<mapsto> ?tb1)"
  note step = execute_query_insert_pg [of t db tb kvs db ns, OF Cons.prems(1,2) fits]
  have fits1: "list_all (record_fits ?tb1) rs"
    using Cons.prems(3) by (simp add: record_fits_trows)
  have "?db1 t = Some ?tb1" by simp
  note ih = Cons.IH [of ?db1 ?tb1, OF Cons.prems(1) this fits1]
  have eq: "insert_records pg t (r # rs) \<lparr> session = \<lparr> durable = db, working = db \<rparr>, shown = ns \<rparr>
        = insert_records pg t rs \<lparr> session = \<lparr> durable = ?db1, working = ?db1 \<rparr>, shown = ns \<rparr>"
    unfolding r insert_records.simps pyval.case Let_def length_map
    using step by (simp only: length_map prod.case)
  show ?case unfolding eq ih by (simp add: r fun_upd_def fun_eq_iff)
qed

lemma pg_delete_ok: "db t = Some tb \<Longrightarrow> pg_delete t db = Inr (NoRows, db(t \<mapsto> tb\<lparr> trows := [] \<rparr>))"
  by (simp add: pg_delete_def)

lemma restore_table_pg:
  assumes "entry_fits db (t, records)"
  shows "restore_table pg t records \<lparr> session = \<lparr> durable = db, working = db \<rparr>, shown = ns \<rparr> =
           (None, \<lparr> session = \<lparr> durable = replace_rows (t, records) db,
                                 working = replace_rows (t, records) db \<rparr>, shown = ns \<rparr>)"
proof -
  from assms obtain tb rs where t: "sql_name t" and tb: "db t = Some tb"
    and rs: "records = VList rs" and fits: "list_all (record_fits tb) rs"
    by (auto simp: entry_fits_def split: option.splits pyval.splits)
  let ?tb0 = "tb\<lparr> trows := [] \<rparr>"
  have st: "pg_statement (''DELETE FROM '' @ t) (if None = Some [] then None else None) db
              = Inr (NoRows, db(t \<mapsto> ?tb0))"
    using pg_delete_ok [of db t tb] tb pg_statement_delete [of t None db] by simp
  note del = execute_query_pg_ok [OF st, of db ns]
  have fits0: "list_all (record_fits ?tb0) rs"
    using fits by (simp add: record_fits_trows)
  have "(db(t \<mapsto> ?tb0)) t = Some ?tb0" by simp
  note ins = insert_records_pg [of t "db(t \<mapsto> ?tb0)" ?tb0 rs ns, OF t this fits0]
  show ?thesis
    using del ins by (simp add: restore_table_def rs replace_rows_def tb)
qed

lemma replace_rows_cols:
  "map_option tcols (replace_rows e db t) = map_option tcols (db t)"
  by (auto simp: replace_rows_def split: option.splits pyval.splits)

lemma entry_fits_replace_rows: "entry_fits (replace_rows e db) e' = entry_fits db e'"
proof (cases "db (fst e')")
  case None
  then have "replace_rows e db (fst e') = None"
    using replace_rows_cols [of e db "fst e'"] by simp
  with None show ?thesis by (simp add: entry_fits_def)
next
  case (Some tb)
  then obtain tb' where tb': "replace_rows e db (fst e') = Some tb'" and c: "tcols tb' = tcols tb"
    using replace_rows_cols [of e db "fst e'"] by auto
  have "list_all (record_fits tb') rs = list_all (record_fits tb) rs" for rs
    using record_fits_cols [OF c] by (simp add: list_all_iff)
  with Some tb' show ?thesis by (simp add: entry_fits_def split: pyval.splits)
qed

lemma restore_loop_pg:
  assumes "list_all (entry_fits db) doc"
  shows "restore_loop pg doc acc \<lparr> session = \<lparr> durable = db, working = db \<rparr>, shown = ns \<rparr> =
           (acc @ map fst doc,
            \<lparr> session = \<lparr> durable = fold replace_rows doc db, working = fold replace_rows doc db \<rparr>,
              shown = ns \<rparr>)"
  using assms
proof (induction doc arbitrary: db acc)
  case Nil
  then show ?case by simp
next
  case (Cons e doc)
  obtain t records where e: "e = (t, records)" by (cases e)
  from Cons.prems have fits: "entry_fits db (t, records)" by (simp add: e)
  from Cons.prems have "list_all (entry_fits (replace_rows e db)) doc"
    by (simp add: list_all_iff entry_fits_replace_rows)
  from Cons.IH [OF this] restore_table_pg [OF fits]
  show ?case by (simp add: e)
qed

lemma restore_pg:
  assumes "list_all (entry_fits db) doc"
  shows "restore pg (VDict doc) (connect db) =
           (map fst doc,
            \<lparr> session = \<lparr> durable = fold replace_rows doc db, working = fold replace_rows doc db \<rparr>,
              shown = [if doc \<noteq> []
                       then Success (''Successfully restored tables: '' @ join '', '' (map fst doc))
                       else Error ''No tables were restored successfully.''] \<rparr>)"
  using restore_loop_pg [OF assms, of "[]" "[]"]
  by (simp add: restore_def connect_def st_success_def st_error_def)

lemma replace_rows_other: "fst e \<noteq> t \<Longrightarrow> replace_rows e db t = db t"
  by (auto simp: replace_rows_def split: option.splits pyval.splits)

lemma fold_replace_rows_other:
  "t \<notin> fst ` set doc \<Longrightarrow> fold replace_rows doc db t = db t"
  by (induction doc arbitrary: db) (auto simp: replace_rows_other)

lemma fold_replace_rows_entry:
  assumes "distinct (map fst doc)" "(t, VList rs) \<in> set doc" "db t = Some tb"
  shows "fold replace_rows doc db t = Some (tb\<lparr> trows := map (record_row (tcols tb)) rs \<rparr>)"
  using assms
proof (induction doc arbitrary: db)
  case Nil
  then show ?case by simp
next
  case (Cons e doc)
  show ?case
  proof (cases "e = (t, VList rs)")
    case True
    with Cons.prems have "t \<notin> fst ` set doc" by auto
    from fold_replace_rows_other [OF this, of "replace_rows e db"]
    have "fold replace_rows (e # doc) db t = replace_rows e db t" by simp
    also have "\<dots> = Some (tb\<lparr> trows := map (record_row (tcols tb)) rs \<rparr>)"
      using True Cons.prems(3) by (simp add: replace_rows_def)
    finally show ?thesis .
  next
    case False
    with Cons.prems have mem: "(t, VList rs) \<in> set doc" and dist: "distinct (map fst doc)"
      and ne: "fst e \<noteq> t" by (auto simp: image_iff)
    have "replace_rows e db t = Some tb" using ne Cons.prems(3) by (simp add: replace_rows_other)
    from Cons.IH [of "replace_rows e db", OF dist mem this] show ?thesis by simp
  qed
qed

lemma get_table_data_failed:
  assumes "table_data_body eng table_name limit m = (Inl e, m')"
  shows "get_table_data eng table_name limit m =
           (empty_frame,
            st_error (''Error fetching data from '' @ table_name @ '': '' @ message e) m')"
  using assms by (simp add: get_table_data_def)

lemma table_data_body_query_failed:
  assumes "execute eng (select_query table_name limit) None (session m) = (Inl e, s)"
  shows "table_data_body eng table_name limit m = (Inl e, m\<lparr> session := s \<rparr>)"
  using assms by (simp add: table_data_body_def session_execute_def)

lemma DataFrame_well_formed:
  "well_formed_table tb \<Longrightarrow> DataFrame (trows tb) (tcols tb) = Inr \<lparr> df_columns = tcols tb, df_rows = trows tb \<rparr>"
  by (simp add: DataFrame_def well_formed_table_def)

lemma DataFrame_slice:
  "well_formed_table tb \<Longrightarrow>
     DataFrame (take n (drop k (trows tb))) (tcols tb) =
       Inr \<lparr> df_columns = tcols tb, df_rows = take n (drop k (trows tb)) \<rparr>"
  by (auto simp: DataFrame_def well_formed_table_def list_all_iff dest: in_set_takeD in_set_dropD)

lemma get_table_data_pg_all:
  assumes "sql_name t" "db t = Some tb" "well_formed_table tb"
  shows "get_table_data pg t None \<lparr> session = \<lparr> durable = d, working = db \<rparr>, shown = ns \<rparr> =
           (\<lparr> df_columns = tcols tb, df_rows = trows tb \<rparr>,
            \<lparr> session = \<lparr> durable = d, working = db \<rparr>, shown = ns \<rparr>)"
proof -
  have "pg_statement (''SELECT * FROM '' @ t) None db = Inr (Rows (tcols tb) (trows tb), db)"
    by (simp only: pg_statement_select pg_select_all [of t db tb, OF sql_name_no_space [OF assms(1)] assms(2)]
        sum.case)
  then show ?thesis
    by (simp add: get_table_data_def table_data_body_def select_query_def session_execute_def
        execute_pg DataFrame_well_formed [OF assms(3)])
qed

lemma get_table_data_pg_page:
  assumes "sql_name t" "db t = Some tb" "well_formed_table tb"
  shows "get_table_data pg t (Some (str_nat n @ '' OFFSET '' @ str_nat k))
            \<lparr> session = \<lparr> durable = d, working = db \<rparr>, shown = ns \<rparr> =
           (\<lparr> df_columns = tcols tb, df_rows = take n (drop k (trows tb)) \<rparr>,
            \<lparr> session = \<lparr> durable = d, working = db \<rparr>, shown = ns \<rparr>)"
proof -
  have ne: "str_nat n @ '' OFFSET '' @ str_nat k \<noteq> []" by (simp add: str_nat_nonempty)
  have q: "select_query t (Some (str_nat n @ '' OFFSET '' @ str_nat k)) =
             ''SELECT * FROM '' @ (t @ '' LIMIT '' @ str_nat n @ '' OFFSET '' @ str_nat k)"
    using ne by (simp add: select_query_def)
  have "pg_statement (''SELECT * FROM '' @ (t @ '' LIMIT '' @ str_nat n @ '' OFFSET '' @ str_nat k)) None db
          = Inr (Rows (tcols tb) (take n (drop k (trows tb))), db)"
    by (simp only: pg_statement_select
        pg_select_page [of t db tb, OF sql_name_no_space [OF assms(1)] assms(2)] sum.case)
  then show ?thesis
    unfolding get_table_data_def table_data_body_def q session_execute_def execute_pg
    by (simp add: DataFrame_slice [OF assms(3)])
qed

lemma fetch_page_pg:
  assumes "0 < s" "0 < p" "sql_name t" "db t = Some tb" "well_formed_table tb"
  shows "fetch_page pg t s p (connect db) =
           (\<lparr> df_columns = tcols tb, df_rows = take (nat s) (drop (nat ((p - 1) * s)) (trows tb)) \<rparr>,
            connect db)"
proof -
  from assms(1,2) have o: "0 \<le> (p - 1) * s" by simp
  show ?thesis
    unfolding fetch_page_def Let_def connect_def
    using get_table_data_pg_page [of t db tb "nat s" "nat ((p - 1) * s)" db "[]", OF assms(3-5)]
      assms(1) o
    by (simp add: str_int_nat)
qed

lemma execute_recording:
  "execute (recording eng) q p (st, issued) =
     (fst (execute eng q p st), (snd (execute eng q p st), issued @ [(q, p)]))"
  by (simp add: recording_def split: prod.splits)

lemma commit_recording:
  "commit (recording eng) (st, issued) = (fst (commit eng st), (snd (commit eng st), issued))"
  by (simp add: recording_def split: prod.splits)

lemma rollback_recording: "rollback (recording eng) (st, issued) = (rollback eng st, issued)"
  by (simp add: recording_def)

lemma table_data_body_recording:
  "snd (session (snd (table_data_body (recording eng) table_name limit
                         \<lparr> session = (st, issued), shown = ns \<rparr>))) =
     issued @ [(select_query table_name limit, None)]"
proof (cases "fst (execute eng (select_query table_name limit) None st)")
  case (Inl e)
  then show ?thesis
    by (simp add: table_data_body_def session_execute_def execute_recording)
next
  case (Inr res)
  then show ?thesis
    by (cases res) (simp_all add: table_data_body_def session_execute_def execute_recording)
qed

lemma get_table_data_session:
  "session (snd (get_table_data eng table_name limit m)) =
     session (snd (table_data_body eng table_name limit m))"
  by (simp add: get_table_data_def st_error_def split: prod.splits sum.splits)

lemma get_table_data_recording:
  "snd (session (snd (get_table_data (recording eng) table_name limit
                         \<lparr> session = (st, issued), shown = ns \<rparr>))) =
     issued @ [(select_query table_name limit, None)]"
  by (simp only: get_table_data_session table_data_body_recording)

lemma fetch_page_recording:
  "snd (session (snd (fetch_page (recording eng) t s p \<lparr> session = (st, []), shown = ns \<rparr>))) =
     [(''SELECT * FROM '' @ t @ '' LIMIT '' @ str_int s @ '' OFFSET '' @ str_int ((p - 1) * s), None)]"
proof -
  have "str_int s \<noteq> []" by (simp add: str_int_def str_nat_nonempty)
  then show ?thesis
    unfolding fetch_page_def Let_def get_table_data_recording
    by (simp add: select_query_def)
qed

lemma consecutive_slices:
  "take n (drop k xs) @ take n (drop (k + n) xs) = take (2 * n) (drop k xs)"
proof -
  have "take (n + n) (drop k xs) = take n (drop k xs) @ take n (drop n (drop k xs))"
    by (rule take_add)
  then show ?thesis by (simp add: add.commute mult_2)
qed

lemma disjoint_slices:
  assumes "distinct xs"
  shows "set (take n (drop k xs)) \<inter> set (take n (drop (k + n) xs)) = {}"
proof -
  have d: "distinct (drop k xs)" using assms by simp
  have "set (take n (drop (k + n) xs)) \<subseteq> set (drop n (drop k xs))"
    using set_take_subset [of n "drop (k + n) xs"] by (simp add: add.commute)
  moreover have "set (take n (drop k xs)) \<inter> set (drop n (drop k xs)) = {}"
    using d by (rule set_take_disj_set_drop_if_distinct) simp
  ultimately show ?thesis by blast
qed

subsection \<open>The ad-hoc query executor\<close>

text \<open>
  C8: for every SQL text passed to \<open>execute_query\<close>, with any session behind it: if the
  statement (or the commit after it) raises, the session is rolled back, the message of
  the exception is shown to the operator word for word after the label
  \<open>Query execution error:\<close>, and no result is returned; if the statement succeeds, the
  transaction is committed and the result returned. On the reference database a failed
  statement leaves the session exactly as it was before the statement.
\<close>

theorem execute_query_commit_or_rollback:
  "(\<forall>e s. execute eng query (if params = Some [] then None else params) (session m) = (Inl e, s) \<longrightarrow>
      execute_query eng query params m =
        (None, \<lparr> session = rollback eng s,
                 shown = shown m @ [Error (''Query execution error: '' @ message e)] \<rparr>)) \<and>
   (\<forall>res s s'. execute eng query (if params = Some [] then None else params) (session m) = (Inr res, s) \<longrightarrow>
      commit eng s = (None, s') \<longrightarrow>
      execute_query eng query params m = (Some res, \<lparr> session = s', shown = shown m \<rparr>)) \<and>
   (\<forall>res s e s'. execute eng query (if params = Some [] then None else params) (session m) = (Inr res, s) \<longrightarrow>
      commit eng s = (Some e, s') \<longrightarrow>
      execute_query eng query params m =
        (None, \<lparr> session = rollback eng s',
                 shown = shown m @ [Error (''Query execution error: '' @ message e)] \<rparr>)) \<and>
   (\<forall>e. pg_statement query (if params = Some [] then None else params) db = Inl e \<longrightarrow>
      execute_query pg query params (connect db) =
        (None, \<lparr> session = session (connect db),
                 shown = [Error (''Query execution error: '' @ message e)] \<rparr>))"
proof (intro conjI allI impI)
  fix e s
  assume "execute eng query (if params = Some [] then None else params) (session m) = (Inl e, s)"
  then show "execute_query eng query params m =
        (None, \<lparr> session = rollback eng s,
                 shown = shown m @ [Error (''Query execution error: '' @ message e)] \<rparr>)"
    by (simp add: execute_query_unfold)
next
  fix res s s'
  assume "execute eng query (if params = Some [] then None else params) (session m) = (Inr res, s)"
    "commit eng s = (None, s')"
  then show "execute_query eng query params m = (Some res, \<lparr> session = s', shown = shown m \<rparr>)"
    by (simp add: execute_query_unfold)
next
  fix res s e s'
  assume "execute eng query (if params = Some [] then None else params) (session m) = (Inr res, s)"
    "commit eng s = (Some e, s')"
  then show "execute_query eng query params m =
        (None, \<lparr> session = rollback eng s',
                 shown = shown m @ [Error (''Query execution error: '' @ message e)] \<rparr>)"
    by (simp add: execute_query_unfold)
next
  fix e
  assume "pg_statement query (if params = Some [] then None else params) db = Inl e"
  from execute_query_pg_failed [OF this, of db "[]"]
  show "execute_query pg query params (connect db) =
        (None, \<lparr> session = session (connect db),
                 shown = [Error (''Query execution error: '' @ message e)] \<rparr>)"
    by (simp add: connect_def)
qed

lemma delete_ghost_fails:
  "pg_statement ''DELETE FROM ghost'' None company_db = Inl (undefined_table ''ghost'')"
  using pg_statement_delete [of "''ghost''" None company_db]
  by (simp add: pg_delete_def company_db_def)

lemma delete_projects_ok:
  "pg_statement ''DELETE FROM projects'' None company_db =
     Inr (NoRows, company_db(''projects'' \<mapsto> projects_table\<lparr> trows := [] \<rparr>))"
  using pg_statement_delete [of "''projects''" None company_db]
  by (simp add: pg_delete_def company_db_def)

theorem execute_query_commit_or_rollback_witness:
  "execute pg ''DELETE FROM ghost'' None (session (connect company_db)) =
     (Inl (undefined_table ''ghost''), session (connect company_db)) \<and>
   execute_query pg ''DELETE FROM ghost'' None (connect company_db) =
     (None, \<lparr> session = session (connect company_db),
              shown = [Error (''Query execution error: '' @ message (undefined_table ''ghost''))] \<rparr>) \<and>
   execute pg ''DELETE FROM projects'' None (session (connect company_db)) =
     (Inr NoRows, \<lparr> durable = company_db,
                     working = company_db(''projects'' \<mapsto> projects_table\<lparr> trows := [] \<rparr>) \<rparr>) \<and>
   execute_query pg ''DELETE FROM projects'' None (connect company_db) =
     (Some NoRows,
      \<lparr> session = \<lparr> durable = company_db(''projects'' \<mapsto> projects_table\<lparr> trows := [] \<rparr>),
                    working = company_db(''projects'' \<mapsto> projects_table\<lparr> trows := [] \<rparr>) \<rparr>,
        shown = [] \<rparr>)"
proof -
  have f: "execute pg ''DELETE FROM ghost'' (if None = Some [] then None else None)
             (session (connect company_db)) =
           (Inl (undefined_table ''ghost''), session (connect company_db))"
    by (simp add: execute_pg connect_def delete_ghost_fails)
  have g: "execute pg ''DELETE FROM projects'' (if None = Some [] then None else None)
             (session (connect company_db)) =
           (Inr NoRows, \<lparr> durable = company_db,
                     working = company_db(''projects'' \<mapsto> projects_table\<lparr> trows := [] \<rparr>) \<rparr>)"
    by (simp add: execute_pg connect_def delete_projects_ok)
  have c: "commit pg \<lparr> durable = company_db,
                     working = company_db(''projects'' \<mapsto> projects_table\<lparr> trows := [] \<rparr>) \<rparr> =
           (None, \<lparr> durable = company_db(''projects'' \<mapsto> projects_table\<lparr> trows := [] \<rparr>),
                    working = company_db(''projects'' \<mapsto> projects_table\<lparr> trows := [] \<rparr>) \<rparr>)"
    by (simp add: commit_pg)
  note t1 = execute_query_commit_or_rollback
    [of pg "''DELETE FROM ghost''" None "connect company_db" company_db]
  note t2 = execute_query_commit_or_rollback
    [of pg "''DELETE FROM projects''" None "connect company_db" company_db]
  from t1 f have a: "execute_query pg ''DELETE FROM ghost'' None (connect company_db) =
     (None, \<lparr> session = rollback pg (session (connect company_db)),
              shown = shown (connect company_db)
                @ [Error (''Query execution error: '' @ message (undefined_table ''ghost''))] \<rparr>)"
    by blast
  from t2 g c have b: "execute_query pg ''DELETE FROM projects'' None (connect company_db) =
     (Some NoRows,
      \<lparr> session = \<lparr> durable = company_db(''projects'' \<mapsto> projects_table\<lparr> trows := [] \<rparr>),
                    working = company_db(''projects'' \<mapsto> projects_table\<lparr> trows := [] \<rparr>) \<rparr>,
        shown = shown (connect company_db) \<rparr>)"
    by blast
  show ?thesis
    using a b f g by (simp add: rollback_pg connect_def)
qed

subsection \<open>Reading a table\<close>

text \<open>
  C9: for every table name and every limit argument, \<open>get_table_data\<close> returns a frame
  and never an exception: whatever exception ends the body of its \<open>try\<close>, in particular
  any failure of the query, the result is the empty frame (and the error is shown); and
  on success with no limit, on the reference database, the frame holds every row of the
  table under the table's column names.
\<close>

theorem get_table_data_never_raises:
  "(\<forall>e m'. table_data_body eng table_name limit m = (Inl e, m') \<longrightarrow>
      get_table_data eng table_name limit m =
        (empty_frame,
         st_error (''Error fetching data from '' @ table_name @ '': '' @ message e) m')) \<and>
   (\<forall>e s. execute eng (select_query table_name limit) None (session m) = (Inl e, s) \<longrightarrow>
      get_table_data eng table_name limit m =
        (empty_frame,
         \<lparr> session = s,
           shown = shown m @ [Error (''Error fetching data from '' @ table_name @ '': '' @ message e)] \<rparr>)) \<and>
   (\<forall>df m'. table_data_body eng table_name limit m = (Inr df, m') \<longrightarrow>
      get_table_data eng table_name limit m = (df, m')) \<and>
   (\<forall>tb. sql_name table_name \<longrightarrow> db table_name = Some tb \<longrightarrow> well_formed_table tb \<longrightarrow>
      get_table_data pg table_name None (connect db) =
        (\<lparr> df_columns = tcols tb, df_rows = trows tb \<rparr>, connect db))"
proof (intro conjI allI impI)
  fix e m'
  assume "table_data_body eng table_name limit m = (Inl e, m')"
  then show "get_table_data eng table_name limit m =
        (empty_frame,
         st_error (''Error fetching data from '' @ table_name @ '': '' @ message e) m')"
    by (rule get_table_data_failed)
next
  fix e s
  assume "execute eng (select_query table_name limit) None (session m) = (Inl e, s)"
  from get_table_data_failed [OF table_data_body_query_failed [OF this]]
  show "get_table_data eng table_name limit m =
        (empty_frame,
         \<lparr> session = s,
           shown = shown m @ [Error (''Error fetching data from '' @ table_name @ '': '' @ message e)] \<rparr>)"
    by (simp add: st_error_def)
next
  fix df m'
  assume "table_data_body eng table_name limit m = (Inr df, m')"
  then show "get_table_data eng table_name limit m = (df, m')"
    by (simp add: get_table_data_def)
next
  fix tb
  assume "sql_name table_name" "db table_name = Some tb" "well_formed_table tb"
  from get_table_data_pg_all [of table_name db tb db "[]", OF this]
  show "get_table_data pg table_name None (connect db) =
        (\<lparr> df_columns = tcols tb, df_rows = trows tb \<rparr>, connect db)"
    by (simp add: connect_def)
qed

lemma select_ghost_fails:
  "pg_statement ''SELECT * FROM ghost'' None company_db = Inl (undefined_table ''ghost'')"
  using pg_statement_select [of "''ghost''" None company_db]
  by (simp add: pg_select_def company_db_def)

lemma inventory_well_formed: "well_formed_table inventory_table"
  by (simp add: well_formed_table_def inventory_table_def sql_name_def)

lemma company_inventory: "company_db ''inventory'' = Some inventory_table"
  by (simp add: company_db_def)

theorem get_table_data_never_raises_witness:
  "execute pg (select_query ''ghost'' None) None (session (connect company_db)) =
     (Inl (undefined_table ''ghost''), session (connect company_db)) \<and>
   get_table_data pg ''ghost'' None (connect company_db) =
     (empty_frame,
      \<lparr> session = session (connect company_db),
        shown = [Error (''Error fetching data from ghost: '' @ message (undefined_table ''ghost''))] \<rparr>) \<and>
   sql_name ''inventory'' \<and> company_db ''inventory'' = Some inventory_table \<and>
   well_formed_table inventory_table \<and>
   get_table_data pg ''inventory'' None (connect company_db) =
     (\<lparr> df_columns = [''sku'', ''current_stock'', ''reorder_point''],
        df_rows = [[VStr ''LAP-001'', VInt 25, VInt 10],
                   [VStr ''CHR-002'', VInt 8, VInt 15],
                   [VStr ''PRT-003'', VInt 45, VInt 20]] \<rparr>, connect company_db)"
proof -
  have f: "execute pg (select_query ''ghost'' None) None (session (connect company_db)) =
     (Inl (undefined_table ''ghost''), session (connect company_db))"
    using select_ghost_fails by (simp add: execute_pg connect_def select_query_def)
  have n: "sql_name ''inventory''" by (simp add: sql_name_def)
  note t1 = get_table_data_never_raises [of pg "''ghost''" None "connect company_db" company_db]
  note t2 = get_table_data_never_raises [of pg "''inventory''" None "connect company_db" company_db]
  from t1 f have a: "get_table_data pg ''ghost'' None (connect company_db) =
        (empty_frame,
         \<lparr> session = session (connect company_db),
           shown = shown (connect company_db)
             @ [Error (''Error fetching data from '' @ ''ghost'' @ '': '' @ message (undefined_table ''ghost''))] \<rparr>)"
    by blast
  from t2 n company_inventory inventory_well_formed
  have b: "get_table_data pg ''inventory'' None (connect company_db) =
        (\<lparr> df_columns = tcols inventory_table, df_rows = trows inventory_table \<rparr>, connect company_db)"
    by blast
  show ?thesis
    using a b f n company_inventory inventory_well_formed
    by (simp add: connect_def inventory_table_def)
qed

subsection \<open>Pages of a table\<close>

text \<open>
  C6: for every table, every page size \<open>s > 0\<close> and every page number \<open>p > 0\<close>, the page
  fetch computes the offset \<open>(p - 1) * s\<close> and issues the one statement
  \<open>SELECT * FROM t LIMIT s OFFSET (p - 1) * s\<close>, whatever the session behind it; on the
  reference database the page holds at most \<open>s\<close> rows, page \<open>p\<close> and page \<open>p + 1\<close> are
  consecutive slices of the table that share no row occurrence, and when the rows of
  the table are pairwise distinct (every table of the schema has a serial primary key)
  the two pages have no row in common.
\<close>

theorem fetch_page_bounded_and_disjoint:
  assumes "0 < s" "0 < p" "sql_name t" "db t = Some tb" "well_formed_table tb"
  shows "snd (session (snd (fetch_page (recording eng) t s p \<lparr> session = (st, []), shown = ns \<rparr>))) =
           [(''SELECT * FROM '' @ t @ '' LIMIT '' @ str_int s @ '' OFFSET ''
               @ str_int ((p - 1) * s), None)] \<and>
         fetch_page pg t s p (connect db) =
           (\<lparr> df_columns = tcols tb,
              df_rows = take (nat s) (drop (nat ((p - 1) * s)) (trows tb)) \<rparr>, connect db) \<and>
         length (df_rows (fst (fetch_page pg t s p (connect db)))) \<le> nat s \<and>
         df_rows (fst (fetch_page pg t s p (connect db)))
           @ df_rows (fst (fetch_page pg t s (p + 1) (connect db))) =
           take (2 * nat s) (drop (nat ((p - 1) * s)) (trows tb)) \<and>
         (distinct (trows tb) \<longrightarrow>
            set (df_rows (fst (fetch_page pg t s p (connect db))))
              \<inter> set (df_rows (fst (fetch_page pg t s (p + 1) (connect db)))) = {})"
proof -
  have p1: "0 < p + 1" using assms(2) by simp
  note a = fetch_page_pg [of s p t db tb, OF assms]
  note b = fetch_page_pg [of s "p + 1" t db tb, OF assms(1) p1 assms(3-5)]
  have e: "(p + 1 - 1) * s = (p - 1) * s + s" by (simp add: algebra_simps)
  have o: "0 \<le> (p - 1) * s" using assms(1,2) by simp
  have off: "nat ((p + 1 - 1) * s) = nat ((p - 1) * s) + nat s"
    unfolding e using o assms(1) by (simp add: nat_add_distrib)
  show ?thesis
    unfolding a b fst_conv off
    by (simp add: fetch_page_recording consecutive_slices disjoint_slices)
qed

theorem fetch_page_bounded_and_disjoint_witness:
  "(0::int) < 2 \<and> (0::int) < 1 \<and> sql_name ''inventory'' \<and>
   company_db ''inventory'' = Some inventory_table \<and> well_formed_table inventory_table \<and>
   fetch_page pg ''inventory'' 2 1 (connect company_db) =
     (\<lparr> df_columns = [''sku'', ''current_stock'', ''reorder_point''],
        df_rows = [[VStr ''LAP-001'', VInt 25, VInt 10], [VStr ''CHR-002'', VInt 8, VInt 15]] \<rparr>,
      connect company_db) \<and>
   df_rows (fst (fetch_page pg ''inventory'' 2 2 (connect company_db))) =
     [[VStr ''PRT-003'', VInt 45, VInt 20]]"
proof -
  have n: "sql_name ''inventory''" by (simp add: sql_name_def)
  have s: "(0::int) < 2" and p: "(0::int) < 1" by simp_all
  note t = fetch_page_bounded_and_disjoint
    [where s = 2 and p = 1 and t = "''inventory''" and db = company_db and tb = inventory_table
       and eng = pg and st = "session (connect company_db)" and ns = "[]",
     OF s p n company_inventory inventory_well_formed]
  note t2 = conjunct1 [OF conjunct2 [OF t]]
  note t4 = conjunct1 [OF conjunct2 [OF conjunct2 [OF conjunct2 [OF t]]]]
  have a: "fetch_page pg ''inventory'' 2 1 (connect company_db) =
     (\<lparr> df_columns = [''sku'', ''current_stock'', ''reorder_point''],
        df_rows = [[VStr ''LAP-001'', VInt 25, VInt 10], [VStr ''CHR-002'', VInt 8, VInt 15]] \<rparr>,
      connect company_db)"
    using t2 by (simp add: inventory_table_def)
  have b: "df_rows (fst (fetch_page pg ''inventory'' 2 2 (connect company_db))) =
     [[VStr ''PRT-003'', VInt 45, VInt 20]]"
    using t4 unfolding a by (simp add: inventory_table_def)
  show ?thesis
    using a b n company_inventory inventory_well_formed by simp
qed

end
